theory Spec2Isabelle
  imports Main "HOL-Library.AList" "HOL-Library.Char_ord" "HOL-Library.List_Lexorder"
begin

section \<open>The HTTP transport of the ClickHouse client (conn\_http.go)\<close>

text \<open>
  A shallow embedding of \<^verbatim>\<open>conn_http.go\<close>. Go strings and byte slices are
  \<open>string\<close> (a list of 8-bit characters). A nullable pointer is an \<open>option\<close>.
  A method with a pointer receiver that writes a field returns the updated handle.
  The collaborators that live outside the file (the query path, the HTTP client, the
  timezone database, the block codec, \<^verbatim>\<open>fmt.Sprint\<close>, the parsing of the authority,
  path and fragment of a URL, the allocation limit of the runtime) are parameters of the
  functions that call them.
\<close>

subsection \<open>Errors\<close>

text \<open>
  \<open>ErrBadConn\<close> is \<^verbatim>\<open>driver.ErrBadConn\<close>, \<open>ErrorsNew\<close> is
  \<^verbatim>\<open>errors.New\<close>, \<open>ErrorsWrap\<close> is \<^verbatim>\<open>errors.Wrap\<close>,
  \<open>FmtErrorf\<close> carries the formatted message of \<^verbatim>\<open>fmt.Errorf\<close>, and
  \<open>External\<close> is an error value made by a collaborator.
\<close>

datatype error =
    ErrBadConn
  | ErrorsNew string
  | ErrorsWrap error string
  | FmtErrorf string
  | External string

text \<open>A Go function either returns or panics (here: a nil pointer dereference).\<close>

datatype 'a outcome = Panics | Returns 'a

subsection \<open>Query strings: \<^verbatim>\<open>url.Values\<close>, \<^verbatim>\<open>Encode\<close>, \<^verbatim>\<open>Query\<close>\<close>

text \<open>
  \<^verbatim>\<open>url.Values\<close> is \<^verbatim>\<open>map[string][]string\<close>: an association list with
  one entry per key.
\<close>

type_synonym Values = "(string \<times> string list) list"

definition Values_lookup :: "Values \<Rightarrow> string \<Rightarrow> string list" where
  "Values_lookup v key = (case map_of v key of None \<Rightarrow> [] | Some vs \<Rightarrow> vs)"

definition Values_Set :: "string \<Rightarrow> string \<Rightarrow> Values \<Rightarrow> Values" where
  "Values_Set key val v = AList.update key [val] v"

definition Values_Add :: "string \<Rightarrow> string \<Rightarrow> Values \<Rightarrow> Values" where
  "Values_Add key val v = AList.update key (Values_lookup v key @ [val]) v"

definition Values_Get :: "string \<Rightarrow> Values \<Rightarrow> string" where
  "Values_Get key v =
     (let vs = Values_lookup v key in if length vs = 0 then [] else vs ! 0)"

text \<open>The byte test \<^verbatim>\<open>lo <= c && c <= hi\<close>, on the codes of the bytes.\<close>

definition byte_in :: "char \<Rightarrow> char \<Rightarrow> char \<Rightarrow> bool" where
  "byte_in lo hi c \<longleftrightarrow> lo \<le> c \<and> c \<le> hi"

definition upperhex :: "nat \<Rightarrow> char" where
  "upperhex n = ''0123456789ABCDEF'' ! n"

definition ishex :: "char \<Rightarrow> bool" where
  "ishex c \<longleftrightarrow>
     byte_in (CHR ''0'') (CHR ''9'') c \<or>
     byte_in (CHR ''a'') (CHR ''f'') c \<or>
     byte_in (CHR ''A'') (CHR ''F'') c"

text \<open>The last branch of \<open>unhex\<close> is not reached: callers test \<open>ishex\<close> first.\<close>

definition unhex :: "char \<Rightarrow> nat" where
  "unhex c =
     (if byte_in (CHR ''0'') (CHR ''9'') c then of_char c - of_char CHR ''0''
      else if byte_in (CHR ''a'') (CHR ''f'') c then of_char c - of_char CHR ''a'' + 10
      else if byte_in (CHR ''A'') (CHR ''F'') c then of_char c - of_char CHR ''A'' + 10
      else 0)"

text \<open>\<^verbatim>\<open>shouldEscape(c, encodeQueryComponent)\<close>: only unreserved bytes pass.\<close>

definition shouldEscape :: "char \<Rightarrow> bool" where
  "shouldEscape c \<longleftrightarrow>
     \<not> (byte_in (CHR ''a'') (CHR ''z'') c \<or>
        byte_in (CHR ''A'') (CHR ''Z'') c \<or>
        byte_in (CHR ''0'') (CHR ''9'') c \<or>
        c \<in> {CHR ''-'', CHR ''_'', CHR ''.'', CHR ''~''})"

text \<open>
  One byte of \<^verbatim>\<open>escape(s, encodeQueryComponent)\<close>: a space becomes \<open>+\<close>, a byte
  to escape becomes \<open>%XY\<close> with \<open>X = upperhex[c>>4]\<close> and \<open>Y = upperhex[c&15]\<close>.
\<close>

definition escape_byte :: "char \<Rightarrow> string" where
  "escape_byte c =
     (if c = CHR '' '' then ''+''
      else if shouldEscape c
        then [CHR ''%'', upperhex (of_char c div 16), upperhex (of_char c mod 16)]
      else [c])"

definition QueryEscape :: "string \<Rightarrow> string" where
  "QueryEscape s = concat (map escape_byte s)"

text \<open>
  \<^verbatim>\<open>QueryUnescape\<close>: \<open>%XY\<close> with two hex digits is the byte \<open>unhex X << 4 | unhex Y\<close>
  (both below 16, so the sum), \<open>+\<close> is a space; a \<open>%\<close> without two hex digits is an
  \<^verbatim>\<open>EscapeError\<close>.
\<close>

fun QueryUnescape :: "string \<Rightarrow> error + string" where
  "QueryUnescape [] = Inr []"
| "QueryUnescape (c # s) =
     (if c = CHR ''%'' then
        (case s of
           x # y # t \<Rightarrow>
             if ishex x \<and> ishex y then
               (case QueryUnescape t of
                  Inl e \<Rightarrow> Inl e
                | Inr r \<Rightarrow> Inr (char_of (unhex x * 16 + unhex y) # r))
             else Inl (External ''invalid URL escape'')
         | _ \<Rightarrow> Inl (External ''invalid URL escape''))
      else
        (case QueryUnescape s of
           Inl e \<Rightarrow> Inl e
         | Inr r \<Rightarrow> Inr ((if c = CHR ''+'' then CHR '' '' else c) # r)))"

text \<open>\<^verbatim>\<open>strings.Cut(s, sep)\<close> for a one-byte separator.\<close>

definition Cut :: "string \<Rightarrow> char \<Rightarrow> string \<times> string \<times> bool" where
  "Cut s sep =
     (if sep \<in> set s
      then (takeWhile (\<lambda>c. c \<noteq> sep) s, tl (dropWhile (\<lambda>c. c \<noteq> sep) s), True)
      else (s, [], False))"

lemma Cut_shorter:
  assumes "query \<noteq> []"
  shows "length (fst (snd (Cut query sep))) < length query"
proof (cases "sep \<in> set query")
  case True
  then have "dropWhile (\<lambda>c. c \<noteq> sep) query \<noteq> []"
    by simp
  then have "length (tl (dropWhile (\<lambda>c. c \<noteq> sep) query)) < length (dropWhile (\<lambda>c. c \<noteq> sep) query)"
    by (cases "dropWhile (\<lambda>c. c \<noteq> sep) query") simp_all
  moreover have "length (dropWhile (\<lambda>c. c \<noteq> sep) query) \<le> length query"
    by (rule length_dropWhile_le)
  ultimately have "length (tl (dropWhile (\<lambda>c. c \<noteq> sep) query)) < length query"
    by linarith
  with True show ?thesis
    by (simp add: Cut_def)
next
  case False
  with assms show ?thesis
    by (simp add: Cut_def)
qed

lemma Cut_shorter_eq: "query \<noteq> [] \<Longrightarrow> (key, rest, found) = Cut query sep \<Longrightarrow> length rest < length query"
  using Cut_shorter [of query sep] by (cases "Cut query sep") auto

text \<open>
  \<^verbatim>\<open>parseQuery\<close>, the loop of \<^verbatim>\<open>url.ParseQuery\<close>. A piece with a semicolon, an
  empty piece and a piece that fails to unescape are skipped (\<^verbatim>\<open>continue\<close>). The error
  it also returns is dropped: \<^verbatim>\<open>URL.Query\<close> discards it.
\<close>

function parseQuery :: "Values \<Rightarrow> string \<Rightarrow> Values" where
  "parseQuery m query =
     (if query = [] then m
      else
        (case Cut query (CHR ''&'') of
           (key, rest, _) \<Rightarrow>
             if CHR '';'' \<in> set key then parseQuery m rest
             else if key = [] then parseQuery m rest
             else
               (case Cut key (CHR ''='') of
                  (k, val, _) \<Rightarrow>
                    (case QueryUnescape k of
                       Inl _ \<Rightarrow> parseQuery m rest
                     | Inr k' \<Rightarrow>
                         (case QueryUnescape val of
                            Inl _ \<Rightarrow> parseQuery m rest
                          | Inr v' \<Rightarrow> parseQuery (Values_Add k' v' m) rest)))))"
  by pat_completeness auto
termination
  by (relation "measure (\<lambda>(m, query). length query)") (auto intro: Cut_shorter_eq)

text \<open>
  \<^verbatim>\<open>Values.Encode\<close>: the keys sorted, and for each key each of its values as
  \<open>key=value\<close>, both escaped, with \<open>&\<close> written before every pair but the first.
\<close>

definition encode_pair :: "string \<Rightarrow> string \<Rightarrow> string \<Rightarrow> string" where
  "encode_pair keyEscaped buf val =
     (if length buf > 0 then buf @ ''&'' else buf) @ keyEscaped @ ''='' @ QueryEscape val"

definition Encode :: "Values \<Rightarrow> string" where
  "Encode v =
     (if length v = 0 then []
      else foldl (\<lambda>buf k. foldl (encode_pair (QueryEscape k)) buf (Values_lookup v k))
             [] (sort (map fst v)))"

record URL =
  Scheme :: string
  Host :: string
  RawQuery :: string

definition Query :: "URL \<Rightarrow> Values" where
  "Query u = parseQuery [] (RawQuery u)"

subsection \<open>Rendering and parsing a URL: \<^verbatim>\<open>URL.String\<close>, \<^verbatim>\<open>url.Parse\<close>\<close>

text \<open>
  \<^verbatim>\<open>shouldEscape(c, encodeHost)\<close>: letters, digits, the sub-delimiters and brackets
  that a host may hold (among them the quotes, bytes \<open>0x27\<close> and \<open>0x22\<close>) and the
  unreserved marks pass; every other byte is escaped as \<open>%XY\<close>.
\<close>

definition shouldEscape_host :: "char \<Rightarrow> bool" where
  "shouldEscape_host c \<longleftrightarrow>
     \<not> (byte_in (CHR ''a'') (CHR ''z'') c \<or>
        byte_in (CHR ''A'') (CHR ''Z'') c \<or>
        byte_in (CHR ''0'') (CHR ''9'') c \<or>
        c \<in> {CHR ''!'', CHR ''$'', CHR ''&'', CHR 0x27, CHR ''('', CHR '')'', CHR ''*'',
             CHR ''+'', CHR '','', CHR '';'', CHR ''='', CHR '':'', CHR ''['', CHR '']'',
             CHR ''<'', CHR ''>'', CHR 0x22} \<or>
        c \<in> {CHR ''-'', CHR ''_'', CHR ''.'', CHR ''~''})"

definition escape_host_byte :: "char \<Rightarrow> string" where
  "escape_host_byte c =
     (if shouldEscape_host c
        then [CHR ''%'', upperhex (of_char c div 16), upperhex (of_char c mod 16)]
      else [c])"

definition escape_host :: "string \<Rightarrow> string" where
  "escape_host s = concat (map escape_host_byte s)"

text \<open>
  \<^verbatim>\<open>URL.String\<close> of a URL whose other fields (opaque part, user, path, fragment) are
  empty, as they are in the URL that \<^verbatim>\<open>dialHttp\<close> builds: the scheme as it is and a
  colon, \<open>//\<close> and the escaped host, \<open>?\<close> and the raw query, each only when the field
  is not empty. The scheme is not escaped.
\<close>

definition URL_String :: "URL \<Rightarrow> string" where
  "URL_String u =
     (if Scheme u \<noteq> [] then Scheme u @ '':'' else []) @
     (if Host u \<noteq> [] then ''//'' @ escape_host (Host u) else []) @
     (if RawQuery u \<noteq> [] then ''?'' @ RawQuery u else [])"

definition stringContainsCTLByte :: "string \<Rightarrow> bool" where
  "stringContainsCTLByte s = list_ex (\<lambda>b. (of_char b :: nat) < 32 \<or> (of_char b :: nat) = 127) s"

text \<open>
  \<^verbatim>\<open>getScheme\<close>: the loop over the bytes, with \<open>pre\<close> the bytes already passed. A
  colon after at least one scheme byte ends the scheme; a colon at the start is an error; a
  digit or sign at the start, any other byte, or the end of the string means no scheme.
\<close>

fun getScheme_from :: "string \<Rightarrow> string \<Rightarrow> string \<Rightarrow> error + string \<times> string" where
  "getScheme_from rawURL pre [] = Inr ([], rawURL)"
| "getScheme_from rawURL pre (c # cs) =
     (if byte_in (CHR ''a'') (CHR ''z'') c \<or> byte_in (CHR ''A'') (CHR ''Z'') c
        then getScheme_from rawURL (pre @ [c]) cs
      else if byte_in (CHR ''0'') (CHR ''9'') c \<or> c = CHR ''+'' \<or> c = CHR ''-'' \<or> c = CHR ''.''
        then (if pre = [] then Inr ([], rawURL) else getScheme_from rawURL (pre @ [c]) cs)
      else if c = CHR '':''
        then (if pre = [] then Inl (ErrorsNew ''missing protocol scheme'') else Inr (pre, cs))
      else Inr ([], rawURL))"

definition getScheme :: "string \<Rightarrow> error + string \<times> string" where
  "getScheme rawURL = getScheme_from rawURL [] rawURL"

text \<open>\<^verbatim>\<open>strings.ToLower\<close> on the bytes of a scheme, which are ASCII.\<close>

definition to_lower :: "char \<Rightarrow> char" where
  "to_lower c = (if byte_in (CHR ''A'') (CHR ''Z'') c then char_of (of_char c + (32 :: nat)) else c)"

text \<open>
  \<^verbatim>\<open>parse(rawURL, false)\<close> of \<^verbatim>\<open>net/url\<close>, up to the point where the raw query is
  set: the control byte check, the URL \<open>*\<close>, the scheme, and the cut at the first \<open>?\<close>
  (a lone \<open>?\<close> at the end gives an empty query). What follows in \<^verbatim>\<open>parse\<close> (the opaque
  part, the authority, the path) and \<^verbatim>\<open>removeEmptyPort\<close> are the parameter
  \<open>parse_hier\<close>: from the scheme and the text before the query it gives the host, or an
  error. It does not touch the raw query.
\<close>

definition url_parse :: "(string \<Rightarrow> string \<Rightarrow> error + string) \<Rightarrow> string \<Rightarrow> error + URL" where
  "url_parse parse_hier rawURL =
     (if stringContainsCTLByte rawURL
        then Inl (ErrorsNew ''net/url: invalid control character in URL'')
      else if rawURL = ''*'' then Inr \<lparr>Scheme = [], Host = [], RawQuery = []\<rparr>
      else
        (case getScheme rawURL of
           Inl err \<Rightarrow> Inl err
         | Inr (scheme, rest) \<Rightarrow>
             (case (if rest \<noteq> [] \<and> last rest = CHR ''?'' \<and> count_list rest (CHR ''?'') = 1
                    then (butlast rest, [])
                    else (case Cut rest (CHR ''?'') of (r, q, _) \<Rightarrow> (r, q))) of
                (rest', rawquery) \<Rightarrow>
                  (case parse_hier (map to_lower scheme) rest' of
                     Inl err \<Rightarrow> Inl err
                   | Inr host \<Rightarrow>
                       Inr \<lparr>Scheme = map to_lower scheme, Host = host, RawQuery = rawquery\<rparr>))))"

text \<open>
  \<^verbatim>\<open>url.Parse\<close>: the fragment is cut off at the first \<open>#\<close> before anything else.
  \<open>setFragment\<close> is \<^verbatim>\<open>URL.setFragment\<close>, which may refuse the fragment. (The errors
  come wrapped in a \<^verbatim>\<open>url.Error\<close>; the wrapping is left out.)
\<close>

definition Parse ::
  "(string \<Rightarrow> string \<Rightarrow> error + string) \<Rightarrow> (string \<Rightarrow> error option) \<Rightarrow> string \<Rightarrow> error + URL" where
  "Parse parse_hier setFragment rawURL =
     (case Cut rawURL (CHR ''#'') of
        (u, frag, _) \<Rightarrow>
          (case url_parse parse_hier u of
             Inl err \<Rightarrow> Inl err
           | Inr url \<Rightarrow>
               if frag = [] then Inr url
               else (case setFragment frag of Some err \<Rightarrow> Inl err | None \<Rightarrow> Inr url)))"

subsection \<open>The data of the connection\<close>

text \<open>
  \<^verbatim>\<open>Options\<close> (declared outside the file): the fields that \<^verbatim>\<open>dialHttp\<close> reads.
  \<open>Settings\<close> is a Go map; the list gives its entries in the order the \<^verbatim>\<open>range\<close>
  loop visits them, which Go leaves open. Durations are in nanoseconds.
\<close>

record ('v, 'tls) Options =
  opt_Scheme :: string
  Settings :: "(string \<times> 'v) list"
  DialTimeout :: int
  ConnMaxLifetime :: int
  ReadTimeout :: int
  TLS :: "'tls option"

text \<open>\<^verbatim>\<open>QueryOptions\<close> (declared outside the file): the fields that \<^verbatim>\<open>prepareRequest\<close> reads.\<close>

record 'v QueryOptions =
  queryID :: string
  quotaKey :: string
  settings :: "(string \<times> 'v) list"

text \<open>\<^verbatim>\<open>http.Client\<close> with its \<^verbatim>\<open>http.Transport\<close>, as \<^verbatim>\<open>dialHttp\<close> fills it.\<close>

record 'tls Client =
  Dialer_Timeout :: int
  Dialer_KeepAlive :: int
  MaxIdleConns :: int
  IdleConnTimeout :: int
  ResponseHeaderTimeout :: int
  TLSClientConfig :: "'tls option"

text \<open>
  \<^verbatim>\<open>httpConnect\<close>. \<open>client\<close> and \<open>location\<close> are pointers that may be nil. The encoder
  and the decoder are held by pointer and never nil; the record holds their state.
\<close>

record ('tls, 'loc, 'enc, 'dec) httpConnect =
  url :: URL
  client :: "'tls Client option"
  location :: "'loc option"
  encoder :: 'enc
  decoder :: 'dec

text \<open>\<^verbatim>\<open>http.Request\<close>: the context, method, URL and body it was made with.\<close>

record ('ctx, 'rd) Request =
  req_ctx :: 'ctx
  Method :: string
  req_URL :: URL
  req_Body :: 'rd

text \<open>
  A response body is a stream of \<^verbatim>\<open>Read\<close> results: \<open>Chunk bs s\<close> delivers the bytes
  \<open>bs\<close> and goes on as \<open>s\<close>, \<open>EOF\<close> ends the stream, \<open>ReadFails e\<close> is a \<^verbatim>\<open>Read\<close>
  that returns the error \<open>e\<close>. A stream is finite.
\<close>

datatype stream = EOF | ReadFails error | Chunk string stream

record Response =
  StatusCode :: int
  ContentLength :: int
  Body :: stream

text \<open>
  What the query path gives \<^verbatim>\<open>dialHttp\<close> and \<^verbatim>\<open>ping\<close> of its \<^verbatim>\<open>rows\<close>:
  the column names, and for each row that \<^verbatim>\<open>Next\<close> yields the result of scanning it
  into one string destination (\<open>Inr s\<close>: the scan stored \<open>s\<close>; \<open>Inl e\<close>: it failed and
  left the destination as it was).
\<close>

record Rows =
  Columns :: "string list"
  Scans :: "(error + string) list"

text \<open>The release callback handed to the query path: nil, or a function that does nothing.\<close>

datatype release = ReleaseNil | ReleaseNoop

text \<open>
  The effects on the outside world that the functions of the file perform themselves, in
  order: an HTTP exchange, draining and closing a response body, and releasing the idle
  connections of a client.
\<close>

datatype event = HttpDo | BodyRead | BodyClose | CloseIdleConnections

subsection \<open>\<^verbatim>\<open>isBad\<close>, the block codec adapter, \<^verbatim>\<open>asyncInsert\<close>\<close>

definition isBad :: "('tls, 'loc, 'enc, 'dec) httpConnect \<Rightarrow> bool" where
  "isBad h = (if client h = None then True else False)"

text \<open>
  \<^verbatim>\<open>block.Encode(h.encoder, 0)\<close> and \<^verbatim>\<open>block.Decode(h.decoder, 0)\<close> are the
  parameters \<open>Encode\<close> and \<open>Decode\<close>: they get the codec state and the revision and
  return the new codec state.
\<close>

definition writeData ::
  "('blk \<Rightarrow> 'enc \<Rightarrow> nat \<Rightarrow> error option \<times> 'enc) \<Rightarrow>
   ('tls, 'loc, 'enc, 'dec) httpConnect \<Rightarrow> 'blk \<Rightarrow>
   error option \<times> ('tls, 'loc, 'enc, 'dec) httpConnect" where
  "writeData Encode_block h block =
     (case Encode_block block (encoder h) 0 of (err, e') \<Rightarrow> (err, h\<lparr>encoder := e'\<rparr>))"

definition readData ::
  "('dec \<Rightarrow> nat \<Rightarrow> (error + 'blk) \<times> 'dec) \<Rightarrow>
   ('tls, 'loc, 'enc, 'dec) httpConnect \<Rightarrow>
   (error + 'blk) \<times> ('tls, 'loc, 'enc, 'dec) httpConnect" where
  "readData Decode_block h =
     (case Decode_block (decoder h) 0 of
        (Inl err, d') \<Rightarrow> (Inl err, h\<lparr>decoder := d'\<rparr>)
      | (Inr block, d') \<Rightarrow> (Inr block, h\<lparr>decoder := d'\<rparr>))"

definition asyncInsert ::
  "('tls, 'loc, 'enc, 'dec) httpConnect \<Rightarrow> 'ctx \<Rightarrow> string \<Rightarrow> bool \<Rightarrow> error option" where
  "asyncInsert h ctx query wait = Some (ErrorsNew ''HTTP: not supported'')"

subsection \<open>\<^verbatim>\<open>readResponse\<close>\<close>

text \<open>
  A byte slice has its elements and a capacity; the nil slice is \<open>nil_bytes\<close>.
  \<^verbatim>\<open>make([]byte, 0, n)\<close> is \<open>make_bytes maxAlloc n\<close>, where \<open>maxAlloc\<close> is the
  largest size the Go runtime allocates on the platform (\<open>2^48\<close> bytes on linux/amd64):
  with a negative capacity or one above the limit \<^verbatim>\<open>make\<close> panics
  (\<^verbatim>\<open>makeslice: cap out of range\<close>).
\<close>

record byte_slice =
  elems :: string
  capacity :: nat

definition nil_bytes :: byte_slice where
  "nil_bytes = \<lparr>elems = [], capacity = 0\<rparr>"

definition make_bytes :: "nat \<Rightarrow> int \<Rightarrow> byte_slice outcome" where
  "make_bytes maxAlloc n =
     (if n < 0 \<or> int maxAlloc < n then Panics
      else Returns \<lparr>elems = [], capacity = nat n\<rparr>)"

text \<open>
  \<^verbatim>\<open>bytes.Buffer\<close>: writing appends, and grows the capacity when it is too small
  (by how much Go grows it is not modelled: at least to the length).
\<close>

definition Buffer_write :: "byte_slice \<Rightarrow> string \<Rightarrow> byte_slice" where
  "Buffer_write b bs =
     \<lparr>elems = elems b @ bs, capacity = max (capacity b) (length (elems b @ bs))\<rparr>"

text \<open>
  \<^verbatim>\<open>Buffer.ReadFrom\<close>: reads until the stream ends and returns the buffer, the count
  of bytes read and the error, if any (an \<open>EOF\<close> is not an error).
\<close>

fun ReadFrom :: "byte_slice \<Rightarrow> stream \<Rightarrow> byte_slice \<times> nat \<times> error option" where
  "ReadFrom b EOF = (b, 0, None)"
| "ReadFrom b (ReadFails e) = (b, 0, Some e)"
| "ReadFrom b (Chunk bs s) =
     (case ReadFrom (Buffer_write b bs) s of (b', n, err) \<Rightarrow> (b', length bs + n, err))"

text \<open>
  The slice that \<^verbatim>\<open>readResponse\<close> sets up before it reads: the nil slice, or, for a
  positive \<^verbatim>\<open>ContentLength\<close> (an \<^verbatim>\<open>int64\<close> that the server advertises), the
  result of \<^verbatim>\<open>make\<close>.
\<close>

definition readResponse_buffer :: "nat \<Rightarrow> Response \<Rightarrow> byte_slice outcome" where
  "readResponse_buffer maxAlloc response =
     (if ContentLength response > 0
      then make_bytes maxAlloc (ContentLength response)
      else Returns nil_bytes)"

text \<open>
  \<^verbatim>\<open>readResponse\<close>. The slice is made first; \<^verbatim>\<open>defer response.Body.Close()\<close>
  comes after it. When \<^verbatim>\<open>make\<close> panics nothing has been deferred: the body is neither
  read nor closed. Otherwise the deferred close runs on both returns, so \<open>BodyClose\<close> is
  the last event of both.
\<close>

definition readResponse ::
  "nat \<Rightarrow> Response \<Rightarrow> (error + string) outcome \<times> event list" where
  "readResponse maxAlloc response =
     (case readResponse_buffer maxAlloc response of
        Panics \<Rightarrow> (Panics, [])
      | Returns result \<Rightarrow>
          (case ReadFrom result (Body response) of
             (buf, _, err) \<Rightarrow>
               (case err of
                  Some e \<Rightarrow> (Returns (Inl e), [BodyRead, BodyClose])
                | None \<Rightarrow> (Returns (Inr (elems buf)), [BodyRead, BodyClose]))))"

subsection \<open>\<^verbatim>\<open>prepareRequest\<close>\<close>

definition quotaKeyParamName :: string where
  "quotaKeyParamName = ''quota_key''"

definition queryIDParamName :: string where
  "queryIDParamName = ''query_id''"

text \<open>
  \<^verbatim>\<open>http.NewRequestWithContext\<close>: a nil context (\<open>None\<close>) is refused, then the URL is
  parsed; the request holds the context, the method, the parsed URL and the body. (The method
  is checked first; \<open>POST\<close> passes.)
\<close>

definition NewRequestWithContext ::
  "(string \<Rightarrow> string \<Rightarrow> error + string) \<Rightarrow> (string \<Rightarrow> error option) \<Rightarrow>
   'ctx option \<Rightarrow> string \<Rightarrow> string \<Rightarrow> 'rd \<Rightarrow> error + ('ctx, 'rd) Request" where
  "NewRequestWithContext parse_hier setFragment ctx method rawURL body =
     (case ctx of
        None \<Rightarrow> Inl (ErrorsNew ''net/http: nil Context'')
      | Some c \<Rightarrow>
          (case Parse parse_hier setFragment rawURL of
             Inl err \<Rightarrow> Inl err
           | Inr u \<Rightarrow> Inr \<lparr>req_ctx = c, Method = method, req_URL = u, req_Body = body\<rparr>))"

text \<open>
  \<^verbatim>\<open>prepareRequest\<close>. \<open>Sprint\<close> is \<^verbatim>\<open>fmt.Sprint\<close>. The error of the constructor
  is looked at only in the \<^verbatim>\<open>return\<close>: with options present \<^verbatim>\<open>req.URL\<close> is read
  first, and on a nil request that read panics.
\<close>

definition prepareRequest ::
  "(string \<Rightarrow> string \<Rightarrow> error + string) \<Rightarrow> (string \<Rightarrow> error option) \<Rightarrow> ('v \<Rightarrow> string) \<Rightarrow>
   ('tls, 'loc, 'enc, 'dec) httpConnect \<Rightarrow> 'ctx option \<Rightarrow> 'rd \<Rightarrow> 'v QueryOptions option \<Rightarrow>
   (error + ('ctx, 'rd) Request) outcome" where
  "prepareRequest parse_hier setFragment Sprint h ctx reader options =
     (let r = NewRequestWithContext parse_hier setFragment ctx ''POST'' (URL_String (url h)) reader in
      case options of
        None \<Rightarrow> Returns r
      | Some opts \<Rightarrow>
          (case r of
             Inl err \<Rightarrow> Panics
           | Inr req \<Rightarrow>
               (let query = Query (req_URL req);
                    query = (if queryID opts \<noteq> []
                             then Values_Set queryIDParamName (queryID opts) query else query);
                    query = (if quotaKey opts \<noteq> []
                             then Values_Set quotaKeyParamName (quotaKey opts) query else query);
                    query = foldl (\<lambda>q (key, val).
                                     if key = ''default_format'' then q
                                     else Values_Set key (Sprint val) q)
                              query (settings opts)
                in Returns (Inr (req\<lparr>req_URL := (req_URL req)\<lparr>RawQuery := Encode query\<rparr>\<rparr>)))))"

subsection \<open>\<^verbatim>\<open>executeRequest\<close>\<close>

text \<open>The verb \<^verbatim>\<open>%d\<close> of \<^verbatim>\<open>fmt\<close>: a decimal numeral, with a sign when negative.\<close>

fun decimal :: "nat \<Rightarrow> string" where
  "decimal n =
     (if n < 10 then [char_of (48 + n)]
      else decimal (n div 10) @ [char_of (48 + n mod 10)])"

declare decimal.simps [simp del]

definition fmt_d :: "int \<Rightarrow> string" where
  "fmt_d i = (if i < 0 then CHR ''-'' # decimal (nat (- i)) else decimal (nat i))"

definition StatusOK :: int where
  "StatusOK = 200"

text \<open>
  \<open>Do c req\<close> is \<^verbatim>\<open>h.client.Do(req)\<close>: the exchange with the server. A panic of
  \<^verbatim>\<open>readResponse\<close> passes through \<^verbatim>\<open>executeRequest\<close>.
\<close>

definition executeRequest ::
  "nat \<Rightarrow> ('tls Client \<Rightarrow> ('ctx, 'rd) Request \<Rightarrow> error + Response) \<Rightarrow>
   ('tls, 'loc, 'enc, 'dec) httpConnect \<Rightarrow> ('ctx, 'rd) Request \<Rightarrow>
   (error + stream) outcome \<times> event list" where
  "executeRequest maxAlloc Do h req =
     (case client h of
        None \<Rightarrow> (Returns (Inl ErrBadConn), [])
      | Some c \<Rightarrow>
          (case Do c req of
             Inl err \<Rightarrow> (Returns (Inl err), [HttpDo])
           | Inr resp \<Rightarrow>
               if StatusCode resp \<noteq> StatusOK then
                 (case readResponse maxAlloc resp of
                    (Panics, evs) \<Rightarrow> (Panics, HttpDo # evs)
                  | (Returns (Inl err), evs) \<Rightarrow>
                      (Returns (Inl (ErrorsWrap err
                                 ''clickhouse [execute]:: failed to read the response'')),
                       HttpDo # evs)
                  | (Returns (Inr msg), evs) \<Rightarrow>
                      (Returns (Inl (FmtErrorf (''clickhouse [execute]:: ''
                                 @ fmt_d (StatusCode resp) @ '' code: '' @ msg))),
                       HttpDo # evs))
               else (Returns (Inr (Body resp)), [HttpDo])))"

subsection \<open>\<^verbatim>\<open>ping\<close> and \<^verbatim>\<open>close\<close>\<close>

text \<open>
  \<open>query h ctx release q\<close> is \<^verbatim>\<open>h.query(ctx, release, q)\<close>, a method of the handle
  defined outside the file: it returns rows or an error, and the handle as it leaves it.
\<close>

definition ping ::
  "(('tls, 'loc, 'enc, 'dec) httpConnect \<Rightarrow> 'ctx \<Rightarrow> release \<Rightarrow> string \<Rightarrow>
      (error + Rows) \<times> ('tls, 'loc, 'enc, 'dec) httpConnect) \<Rightarrow>
   ('tls, 'loc, 'enc, 'dec) httpConnect \<Rightarrow> 'ctx \<Rightarrow>
   error option \<times> ('tls, 'loc, 'enc, 'dec) httpConnect" where
  "ping query h ctx =
     (case query h ctx ReleaseNil ''SELECT 1'' of
        (Inl err, h') \<Rightarrow> (Some err, h')
      | (Inr rows, h') \<Rightarrow>
          (let column = Columns rows in
           if length column = 1 \<and> column ! 0 = ''1'' then (None, h')
           else (Some (ErrorsNew ''clickhouse [ping]:: cannot ping clickhouse''), h')))"

definition close ::
  "('tls, 'loc, 'enc, 'dec) httpConnect \<Rightarrow>
   error option \<times> ('tls, 'loc, 'enc, 'dec) httpConnect \<times> event list" where
  "close h =
     (case client h of
        None \<Rightarrow> (None, h, [])
      | Some c \<Rightarrow> (None, h\<lparr>client := None\<rparr>, [CloseIdleConnections]))"

subsection \<open>\<^verbatim>\<open>dialHttp\<close>\<close>

text \<open>The endpoint: scheme, address, and the settings with the format forced last.\<close>

definition dial_url :: "('v \<Rightarrow> string) \<Rightarrow> string \<Rightarrow> ('v, 'tls) Options \<Rightarrow> URL" where
  "dial_url Sprint addr opt =
     (let u = \<lparr>Scheme = opt_Scheme opt, Host = addr, RawQuery = []\<rparr>;
          query = Query u;
          query = foldl (\<lambda>q (k, v). Values_Set k (Sprint v) q) query (Settings opt);
          query = Values_Set ''default_format'' ''Native'' query
      in u\<lparr>RawQuery := Encode query\<rparr>)"

text \<open>The handle before the handshake; \<open>enc0\<close> and \<open>dec0\<close> are the fresh codec states.\<close>

definition dial_conn ::
  "('v \<Rightarrow> string) \<Rightarrow> 'enc \<Rightarrow> 'dec \<Rightarrow> string \<Rightarrow> ('v, 'tls) Options \<Rightarrow>
   ('tls, 'loc, 'enc, 'dec) httpConnect" where
  "dial_conn Sprint enc0 dec0 addr opt =
     \<lparr>url = dial_url Sprint addr opt,
      client = Some \<lparr>Dialer_Timeout = DialTimeout opt,
                     Dialer_KeepAlive = ConnMaxLifetime opt,
                     MaxIdleConns = 1,
                     IdleConnTimeout = ConnMaxLifetime opt,
                     ResponseHeaderTimeout = ReadTimeout opt,
                     TLSClientConfig = TLS opt\<rparr>,
      location = None,
      encoder = enc0,
      decoder = dec0\<rparr>"

text \<open>
  The loop over the rows of the handshake. The error of \<^verbatim>\<open>Scan\<close> is not looked at:
  \<open>scanned\<close> is \<^verbatim>\<open>serverLocation\<close> after the scan, still the empty string when the
  scan failed. \<open>LoadLocation\<close> is \<^verbatim>\<open>time.LoadLocation\<close>.
\<close>

definition scanned :: "error + string \<Rightarrow> string" where
  "scanned scan = (case scan of Inr s \<Rightarrow> s | Inl _ \<Rightarrow> [])"

fun read_locations ::
  "(string \<Rightarrow> error + 'loc) \<Rightarrow> (error + string) list \<Rightarrow>
   ('tls, 'loc, 'enc, 'dec) httpConnect \<Rightarrow> error + ('tls, 'loc, 'enc, 'dec) httpConnect" where
  "read_locations LoadLocation [] conn = Inr conn"
| "read_locations LoadLocation (scan # rest) conn =
     (let serverLocation = scanned scan in
      case LoadLocation serverLocation of
        Inl err \<Rightarrow> Inl err
      | Inr loc \<Rightarrow> read_locations LoadLocation rest (conn\<lparr>location := Some loc\<rparr>))"

definition dialHttp ::
  "(('tls, 'loc, 'enc, 'dec) httpConnect \<Rightarrow> 'ctx \<Rightarrow> release \<Rightarrow> string \<Rightarrow>
      (error + Rows) \<times> ('tls, 'loc, 'enc, 'dec) httpConnect) \<Rightarrow>
   (string \<Rightarrow> error + 'loc) \<Rightarrow> ('v \<Rightarrow> string) \<Rightarrow> 'enc \<Rightarrow> 'dec \<Rightarrow>
   'ctx \<Rightarrow> string \<Rightarrow> int \<Rightarrow> ('v, 'tls) Options \<Rightarrow>
   error + ('tls, 'loc, 'enc, 'dec) httpConnect" where
  "dialHttp query LoadLocation Sprint enc0 dec0 ctx addr num opt =
     (let conn = dial_conn Sprint enc0 dec0 addr opt in
      case query conn ctx ReleaseNoop ''SELECT timeZone()'' of
        (Inl err, _) \<Rightarrow> Inl err
      | (Inr rows, conn') \<Rightarrow> read_locations LoadLocation (Scans rows) conn')"

subsection \<open>The operations on a handle after the dial\<close>

text \<open>
  One call on a handle, and the handle as the call leaves it. \<^verbatim>\<open>isBad\<close>,
  \<^verbatim>\<open>asyncInsert\<close>, \<^verbatim>\<open>prepareRequest\<close> and \<^verbatim>\<open>executeRequest\<close> read the
  receiver and assign to none of its fields.
\<close>

datatype ('ctx, 'rd, 'v, 'blk) operation =
    OpIsBad
  | OpWriteData 'blk
  | OpReadData
  | OpAsyncInsert 'ctx string bool
  | OpPrepareRequest 'ctx 'rd "'v QueryOptions option"
  | OpExecuteRequest "('ctx, 'rd) Request"
  | OpPing 'ctx
  | OpClose

fun after ::
  "(('tls, 'loc, 'enc, 'dec) httpConnect \<Rightarrow> 'ctx \<Rightarrow> release \<Rightarrow> string \<Rightarrow>
      (error + Rows) \<times> ('tls, 'loc, 'enc, 'dec) httpConnect) \<Rightarrow>
   ('blk \<Rightarrow> 'enc \<Rightarrow> nat \<Rightarrow> error option \<times> 'enc) \<Rightarrow>
   ('dec \<Rightarrow> nat \<Rightarrow> (error + 'blk) \<times> 'dec) \<Rightarrow>
   ('tls, 'loc, 'enc, 'dec) httpConnect \<Rightarrow> ('ctx, 'rd, 'v, 'blk) operation \<Rightarrow>
   ('tls, 'loc, 'enc, 'dec) httpConnect" where
  "after query Encode_block Decode_block h OpIsBad = h"
| "after query Encode_block Decode_block h (OpWriteData block) = snd (writeData Encode_block h block)"
| "after query Encode_block Decode_block h OpReadData = snd (readData Decode_block h)"
| "after query Encode_block Decode_block h (OpAsyncInsert ctx q wait) = h"
| "after query Encode_block Decode_block h (OpPrepareRequest ctx reader options) = h"
| "after query Encode_block Decode_block h (OpExecuteRequest req) = h"
| "after query Encode_block Decode_block h (OpPing ctx) = snd (ping query h ctx)"
| "after query Encode_block Decode_block h OpClose =
     fst (snd (close h))"

text \<open>
  What the file relies on of the query path: it leaves the endpoint, the transport handle
  and the timezone of the handle as they are.
\<close>

definition query_keeps ::
  "(('tls, 'loc, 'enc, 'dec) httpConnect \<Rightarrow> 'ctx \<Rightarrow> release \<Rightarrow> string \<Rightarrow>
      (error + Rows) \<times> ('tls, 'loc, 'enc, 'dec) httpConnect) \<Rightarrow> bool" where
  "query_keeps query \<longleftrightarrow>
     (\<forall>h ctx rel q. client (snd (query h ctx rel q)) = client h \<and>
                    location (snd (query h ctx rel q)) = location h \<and>
                    url (snd (query h ctx rel q)) = url h)"

subsection \<open>What a stream holds\<close>

text \<open>All the bytes of a stream, and the error that ends it, if one does.\<close>

fun stream_bytes :: "stream \<Rightarrow> string" where
  "stream_bytes EOF = []"
| "stream_bytes (ReadFails e) = []"
| "stream_bytes (Chunk bs s) = bs @ stream_bytes s"

fun stream_error :: "stream \<Rightarrow> error option" where
  "stream_error EOF = None"
| "stream_error (ReadFails e) = Some e"
| "stream_error (Chunk bs s) = stream_error s"

subsection \<open>Query strings, pair by pair\<close>

text \<open>
  Notions for the proofs about \<open>Encode\<close> and \<open>parseQuery\<close>: one encoded pair, the
  encoded pairs after the first, the pairs of a \<^verbatim>\<open>url.Values\<close> in the order \<open>Encode\<close>
  writes them, and what \<open>parseQuery\<close> and \<open>Encode\<close> do with one pair.
\<close>

definition pair_string :: "string \<times> string \<Rightarrow> string" where
  "pair_string p = QueryEscape (fst p) @ ''='' @ QueryEscape (snd p)"

definition tail_pairs :: "(string \<times> string) list \<Rightarrow> string" where
  "tail_pairs ps = concat (map (\<lambda>q. CHR ''&'' # pair_string q) ps)"

definition Values_pairs :: "Values \<Rightarrow> (string \<times> string) list" where
  "Values_pairs v = concat (map (\<lambda>k. map (Pair k) (Values_lookup v k)) (sort (map fst v)))"

definition add_pair :: "Values \<Rightarrow> string \<times> string \<Rightarrow> Values" where
  "add_pair m p = Values_Add (fst p) (snd p) m"

definition encode_step :: "string \<Rightarrow> string \<times> string \<Rightarrow> string" where
  "encode_step buf p = encode_pair (QueryEscape (fst p)) buf (snd p)"

subsection \<open>Example values\<close>

definition example_url :: URL where
  "example_url = \<lparr>Scheme = ''http'', Host = ''localhost:8123'', RawQuery = ''default_format=Native''\<rparr>"

definition example_client :: "unit Client" where
  "example_client =
     \<lparr>Dialer_Timeout = 1000000000, Dialer_KeepAlive = 3600000000000, MaxIdleConns = 1,
      IdleConnTimeout = 3600000000000, ResponseHeaderTimeout = 0, TLSClientConfig = None\<rparr>"

definition open_handle :: "(unit, string, unit, unit) httpConnect" where
  "open_handle =
     \<lparr>url = example_url, client = Some example_client, location = Some ''Europe/Berlin'',
      encoder = (), decoder = ()\<rparr>"

definition closed_handle :: "(unit, string, unit, unit) httpConnect" where
  "closed_handle = open_handle\<lparr>client := None\<rparr>"

definition example_request :: "(unit option, string) Request" where
  "example_request =
     \<lparr>req_ctx = Some (), Method = ''POST'', req_URL = example_url, req_Body = ''SELECT 1''\<rparr>"

text \<open>
  A parser for what follows the scheme that takes the authority after \<open>//\<close> as the host
  and accepts every path, and a fragment setter that accepts every fragment.
\<close>

definition example_parse_hier :: "string \<Rightarrow> string \<Rightarrow> error + string" where
  "example_parse_hier scheme rest =
     (if take 2 rest = ''//'' then Inr (takeWhile (\<lambda>c. c \<noteq> CHR ''/'') (drop 2 rest)) else Inr [])"

definition example_setFragment :: "string \<Rightarrow> error option" where
  "example_setFragment frag = None"

text \<open>A timezone database with two zones.\<close>

definition example_LoadLocation :: "string \<Rightarrow> error + string" where
  "example_LoadLocation name =
     (if name = [] \<or> name = ''UTC'' then Inr ''UTC''
      else if name = ''Europe/Berlin'' then Inr ''Europe/Berlin''
      else Inl (External (''unknown time zone '' @ name)))"

text \<open>A query path that returns the given result and leaves the handle as it is.\<close>

definition example_query ::
  "error + Rows \<Rightarrow> (unit, string, unit, unit) httpConnect \<Rightarrow> unit \<Rightarrow> release \<Rightarrow> string \<Rightarrow>
   (error + Rows) \<times> (unit, string, unit, unit) httpConnect" where
  "example_query result h ctx rel q = (result, h)"

definition example_options :: "(string, unit) Options" where
  "example_options =
     \<lparr>opt_Scheme = ''http'', Settings = [(''max_execution_time'', ''60''), (''default_format'', ''JSON'')],
      DialTimeout = 1000000000, ConnMaxLifetime = 3600000000000, ReadTimeout = 0, TLS = None\<rparr>"

section \<open>Properties\<close>

subsection \<open>\<^verbatim>\<open>asyncInsert\<close>\<close>

text \<open>
  C6: \<^verbatim>\<open>asyncInsert\<close> returns the error \<open>HTTP: not supported\<close> for every handle,
  context, query string (the empty one too) and wait flag.
\<close>

theorem asyncInsert_unsupported:
  "asyncInsert h ctx query wait = Some (ErrorsNew ''HTTP: not supported'')"
  by (simp add: asyncInsert_def)

theorem asyncInsert_unsupported_witness:
  "asyncInsert open_handle () [] True = Some (ErrorsNew ''HTTP: not supported'') \<and>
   asyncInsert closed_handle () [] False = Some (ErrorsNew ''HTTP: not supported'')"
  using asyncInsert_unsupported [of open_handle "()" "[]" True]
    asyncInsert_unsupported [of closed_handle "()" "[]" False]
  by simp

subsection \<open>\<^verbatim>\<open>close\<close> and \<^verbatim>\<open>isBad\<close>\<close>

text \<open>
  C7: \<^verbatim>\<open>close\<close> never returns an error. On a handle without a client it changes
  nothing and performs nothing; on a handle with a client it releases the idle connections
  of that client and sets the client to nil. After it \<^verbatim>\<open>isBad\<close> is true, and a second
  \<^verbatim>\<open>close\<close> changes nothing, performs nothing and returns no error.
\<close>

theorem close_idempotent:
  "(client h = None \<longrightarrow> close h = (None, h, [])) \<and>
   (client h \<noteq> None \<longrightarrow>
      close h = (None, h\<lparr>client := None\<rparr>, [CloseIdleConnections])) \<and>
   fst (close h) = None \<and>
   isBad (fst (snd (close h))) \<and>
   close (fst (snd (close h))) = (None, fst (snd (close h)), [])"
  by (cases "client h") (simp_all add: close_def isBad_def)

theorem close_idempotent_witness:
  "close open_handle =
     (None, closed_handle, [CloseIdleConnections]) \<and>
   close closed_handle = (None, closed_handle, []) \<and>
   isBad closed_handle"
  using close_idempotent [of open_handle] close_idempotent [of closed_handle]
  by (simp add: open_handle_def closed_handle_def close_def isBad_def)

subsection \<open>\<^verbatim>\<open>executeRequest\<close> on a closed handle\<close>

text \<open>
  C4: on a handle without a client \<^verbatim>\<open>executeRequest\<close> returns
  \<^verbatim>\<open>driver.ErrBadConn\<close> for every request and whatever the network would answer,
  and performs no effect: the exchange is not attempted.
\<close>

theorem executeRequest_closed:
  "client h = None \<Longrightarrow> executeRequest maxAlloc Do h req = (Returns (Inl ErrBadConn), [])"
  by (simp add: executeRequest_def)

theorem executeRequest_closed_witness:
  "client closed_handle = None \<and>
   executeRequest (2 ^ 48) (\<lambda>c r. Inr \<lparr>StatusCode = 200, ContentLength = 0, Body = EOF\<rparr>)
     closed_handle example_request = (Returns (Inl ErrBadConn), [])"
  using executeRequest_closed
    [of closed_handle "2 ^ 48"
       "\<lambda>c r. Inr \<lparr>StatusCode = 200, ContentLength = 0, Body = EOF\<rparr>" example_request]
  by (simp add: closed_handle_def)

subsection \<open>\<^verbatim>\<open>ping\<close>\<close>

lemma one_column: "(length column = 1 \<and> column ! 0 = c) \<longleftrightarrow> column = [c]"
  by (cases column) auto

lemma ping_error:
  "query h ctx ReleaseNil ''SELECT 1'' = (Inl err, h') \<Longrightarrow> ping query h ctx = (Some err, h')"
  by (simp add: ping_def)

lemma ping_rows:
  "query h ctx ReleaseNil ''SELECT 1'' = (Inr rows, h') \<Longrightarrow>
   ping query h ctx =
     (if Columns rows = [''1''] then None
      else Some (ErrorsNew ''clickhouse [ping]:: cannot ping clickhouse''), h')"
  using one_column [of "Columns rows" "''1''"] by (auto simp: ping_def Let_def)

text \<open>
  C2: \<^verbatim>\<open>ping\<close> returns no error exactly when the query path returns rows whose
  column names are the one name \<open>1\<close>; on rows with any other column names it returns the
  error \<open>cannot ping clickhouse\<close>; an error of the query path is returned as it is.
\<close>

theorem ping_iff:
  "(fst (ping query h ctx) = None \<longleftrightarrow>
      (\<exists>rows. fst (query h ctx ReleaseNil ''SELECT 1'') = Inr rows \<and> Columns rows = [''1''])) \<and>
   (\<forall>rows. fst (query h ctx ReleaseNil ''SELECT 1'') = Inr rows \<and> Columns rows \<noteq> [''1''] \<longrightarrow>
      fst (ping query h ctx) = Some (ErrorsNew ''clickhouse [ping]:: cannot ping clickhouse'')) \<and>
   (\<forall>err. fst (query h ctx ReleaseNil ''SELECT 1'') = Inl err \<longrightarrow>
      fst (ping query h ctx) = Some err)"
proof -
  obtain r h' where q: "query h ctx ReleaseNil ''SELECT 1'' = (r, h')"
    by (cases "query h ctx ReleaseNil ''SELECT 1''") auto
  show ?thesis
  proof (cases r)
    case (Inl err)
    with q show ?thesis
      by (simp add: ping_error)
  next
    case (Inr rows)
    with q show ?thesis
      by (simp add: ping_rows)
  qed
qed

theorem ping_iff_witness:
  "fst (ping (\<lambda>h ctx rel q. (Inr \<lparr>Columns = [''1''], Scans = [Inr ''1'']\<rparr>, h)) open_handle ()) = None \<and>
   fst (ping (\<lambda>h ctx rel q. (Inr \<lparr>Columns = [''1'', ''2''], Scans = []\<rparr>, h)) open_handle ()) =
     Some (ErrorsNew ''clickhouse [ping]:: cannot ping clickhouse'') \<and>
   fst (ping (\<lambda>h ctx rel q. (Inr \<lparr>Columns = [''one''], Scans = []\<rparr>, h)) open_handle ()) =
     Some (ErrorsNew ''clickhouse [ping]:: cannot ping clickhouse'') \<and>
   fst (ping (\<lambda>h ctx rel q. (Inr \<lparr>Columns = [], Scans = []\<rparr>, h)) open_handle ()) =
     Some (ErrorsNew ''clickhouse [ping]:: cannot ping clickhouse'') \<and>
   fst (ping (\<lambda>h ctx rel q. (Inl (External ''connection refused''), h)) open_handle ()) =
     Some (External ''connection refused'')"
  using
    ping_iff [of "\<lambda>h ctx rel q. (Inr \<lparr>Columns = [''1''], Scans = [Inr ''1'']\<rparr>, h)" open_handle "()"]
    ping_iff [of "\<lambda>h ctx rel q. (Inr \<lparr>Columns = [''1'', ''2''], Scans = []\<rparr>, h)" open_handle "()"]
    ping_iff [of "\<lambda>h ctx rel q. (Inr \<lparr>Columns = [''one''], Scans = []\<rparr>, h)" open_handle "()"]
    ping_iff [of "\<lambda>h ctx rel q. (Inr \<lparr>Columns = [], Scans = []\<rparr>, h)" open_handle "()"]
    ping_iff [of "\<lambda>h ctx rel q. (Inl (External ''connection refused''), h)" open_handle "()"]
  by simp

subsection \<open>\<^verbatim>\<open>readResponse\<close>\<close>

lemma ReadFrom_stream:
  "ReadFrom b s = (b', n, err) \<Longrightarrow>
   elems b' = elems b @ stream_bytes s \<and> err = stream_error s \<and> n = length (stream_bytes s)"
proof (induction s arbitrary: b b' n err)
  case EOF
  then show ?case by simp
next
  case (ReadFails e)
  then show ?case by simp
next
  case (Chunk bs s)
  obtain b1 n1 e1 where r: "ReadFrom (Buffer_write b bs) s = (b1, n1, e1)"
    by (cases "ReadFrom (Buffer_write b bs) s") auto
  from Chunk.IH [OF r]
  have "elems b1 = elems (Buffer_write b bs) @ stream_bytes s"
    and "e1 = stream_error s" and "n1 = length (stream_bytes s)"
    by simp_all
  moreover from Chunk.prems r have "b' = b1" and "n = length bs + n1" and "err = e1"
    by simp_all
  ultimately show ?case
    by (simp add: Buffer_write_def)
qed

lemma readResponse_buffer_cases:
  "readResponse_buffer maxAlloc response =
     (if int maxAlloc < ContentLength response then Panics
      else Returns \<lparr>elems = [],
             capacity = (if ContentLength response > 0 then nat (ContentLength response) else 0)\<rparr>)"
  by (simp add: readResponse_buffer_def make_bytes_def nil_bytes_def)

lemma readResponse_result:
  "readResponse maxAlloc response =
     (if int maxAlloc < ContentLength response then (Panics, [])
      else
        (Returns (case stream_error (Body response) of
                    None \<Rightarrow> Inr (stream_bytes (Body response))
                  | Some e \<Rightarrow> Inl e),
         [BodyRead, BodyClose]))"
proof (cases "int maxAlloc < ContentLength response")
  case True
  then show ?thesis
    by (simp add: readResponse_def readResponse_buffer_cases)
next
  case False
  let ?b = "\<lparr>elems = [],
      capacity = (if ContentLength response > 0 then nat (ContentLength response) else 0)\<rparr>"
  obtain b' n err where r: "ReadFrom ?b (Body response) = (b', n, err)"
    by (cases "ReadFrom ?b (Body response)") auto
  from ReadFrom_stream [OF r]
  have "elems b' = stream_bytes (Body response)" and "err = stream_error (Body response)"
    by simp_all
  with r False show ?thesis
    by (simp add: readResponse_def readResponse_buffer_cases split: option.splits)
qed

text \<open>
  Within the allocation limit \<^verbatim>\<open>readResponse\<close> returns all the bytes of the body, or the
  error that ended the read, whatever length was advertised, and the body has been read and
  then closed.
\<close>

lemma readResponse_within_limit:
  "ContentLength response \<le> int maxAlloc \<Longrightarrow>
   readResponse maxAlloc response =
     (Returns (case stream_error (Body response) of
                 None \<Rightarrow> Inr (stream_bytes (Body response))
               | Some e \<Rightarrow> Inl e),
      [BodyRead, BodyClose])"
  by (simp add: readResponse_result)

text \<open>
  C8: a response with status 500, the body \<open>syntax error\<close> and an advertised content length
  of \<open>2^62\<close>, on a platform whose allocation limit is \<open>2^48\<close>: \<^verbatim>\<open>readResponse\<close> panics
  in \<^verbatim>\<open>make\<close>; it returns neither the bytes nor a read error, and the body is neither
  read nor closed, since the close is deferred only after the allocation.
\<close>

theorem readResponse_alloc_panics:
  "readResponse (2 ^ 48)
     \<lparr>StatusCode = 500, ContentLength = 2 ^ 62, Body = Chunk ''syntax error'' EOF\<rparr> =
   (Panics, [])"
  by (simp add: readResponse_result)

subsection \<open>\<^verbatim>\<open>executeRequest\<close> on a status that is not OK\<close>

lemma fmt_d_500: "fmt_d 500 = ''500''"
  by code_simp

text \<open>
  Within the allocation limit: when the exchange answers with a status other than 200,
  \<^verbatim>\<open>executeRequest\<close> reads the whole body and returns an error whose message is
  \<open>clickhouse [execute]:: N code: B\<close>, with \<open>N\<close> the status in decimal and \<open>B\<close> the bytes
  of the body; when reading the body fails it returns that read error wrapped with
  \<open>clickhouse [execute]:: failed to read the response\<close> instead.
\<close>

lemma executeRequest_server_error:
  assumes "client h = Some c" and "Do c req = Inr resp" and "StatusCode resp \<noteq> StatusOK"
    and "ContentLength resp \<le> int maxAlloc"
  shows "executeRequest maxAlloc Do h req =
     (Returns (case stream_error (Body resp) of
         None \<Rightarrow>
           Inl (FmtErrorf (''clickhouse [execute]:: '' @ fmt_d (StatusCode resp) @ '' code: ''
                            @ stream_bytes (Body resp)))
       | Some e \<Rightarrow>
           Inl (ErrorsWrap e ''clickhouse [execute]:: failed to read the response'')),
      [HttpDo, BodyRead, BodyClose])"
  using assms by (simp add: executeRequest_def readResponse_result split: option.splits)

lemma executeRequest_syntax_error:
  "executeRequest (2 ^ 48)
     (\<lambda>c r. Inr \<lparr>StatusCode = 500, ContentLength = 12, Body = Chunk ''syntax error'' EOF\<rparr>)
     open_handle example_request =
   (Returns (Inl (FmtErrorf ''clickhouse [execute]:: 500 code: syntax error'')),
    [HttpDo, BodyRead, BodyClose])"
  using executeRequest_server_error [of open_handle example_client
      "\<lambda>c r. Inr \<lparr>StatusCode = 500, ContentLength = 12, Body = Chunk ''syntax error'' EOF\<rparr>"
      example_request "\<lparr>StatusCode = 500, ContentLength = 12, Body = Chunk ''syntax error'' EOF\<rparr>"
      "2 ^ 48"]
  by (simp add: open_handle_def StatusOK_def fmt_d_500)

text \<open>
  C5: the exchange answers with status 500, the body \<open>syntax error\<close> and an advertised
  content length of \<open>2^62\<close>, on a platform whose allocation limit is \<open>2^48\<close>:
  \<^verbatim>\<open>executeRequest\<close> panics after the exchange; it returns no error that carries the
  status and the body, and the body is neither read nor closed.
\<close>

theorem executeRequest_alloc_panics:
  "executeRequest (2 ^ 48)
     (\<lambda>c r. Inr \<lparr>StatusCode = 500, ContentLength = 2 ^ 62, Body = Chunk ''syntax error'' EOF\<rparr>)
     open_handle example_request =
   (Panics, [HttpDo])"
  by (simp add: executeRequest_def readResponse_result open_handle_def StatusOK_def)

subsection \<open>\<^verbatim>\<open>prepareRequest\<close> when no request could be made\<close>

lemma prepareRequest_error_panics:
  "NewRequestWithContext parse_hier setFragment ctx ''POST'' (URL_String (url h)) reader = Inl err \<Longrightarrow>
   prepareRequest parse_hier setFragment Sprint h ctx reader (Some opts) = Panics"
  by (simp add: prepareRequest_def)

lemma prepareRequest_no_options:
  "prepareRequest parse_hier setFragment Sprint h ctx reader None =
   Returns (NewRequestWithContext parse_hier setFragment ctx ''POST'' (URL_String (url h)) reader)"
  by (simp add: prepareRequest_def)

lemma prepareRequest_request_returns:
  "NewRequestWithContext parse_hier setFragment ctx ''POST'' (URL_String (url h)) reader = Inr req \<Longrightarrow>
   \<exists>req'. prepareRequest parse_hier setFragment Sprint h ctx reader options = Returns (Inr req')"
  by (cases options) (simp_all add: prepareRequest_def Let_def)

text \<open>
  C10: with a nil context the request constructor returns no request and an error; with
  options present \<^verbatim>\<open>prepareRequest\<close> then reads \<^verbatim>\<open>req.URL\<close> of the nil request
  and panics instead of returning the error.
\<close>

theorem prepareRequest_nil_request_panics:
  "prepareRequest example_parse_hier example_setFragment (\<lambda>v. v) open_handle None ''SELECT 1''
     (Some \<lparr>queryID = [], quotaKey = [], settings = []\<rparr>) = Panics"
  by (simp add: prepareRequest_def NewRequestWithContext_def)

subsection \<open>The handshake of \<^verbatim>\<open>dialHttp\<close>\<close>




lemma dialHttp_query_fails:
  "query (dial_conn Sprint enc0 dec0 addr opt) ctx ReleaseNoop ''SELECT timeZone()'' = (Inl err, conn) \<Longrightarrow>
   dialHttp query LoadLocation Sprint enc0 dec0 ctx addr num opt = Inl err"
  by (simp add: dialHttp_def)



subsection \<open>The life of a handle\<close>

lemma ping_handle: "snd (ping query h ctx) = snd (query h ctx ReleaseNil ''SELECT 1'')"
  by (cases "query h ctx ReleaseNil ''SELECT 1''")
     (simp add: ping_def Let_def split: sum.splits)

lemma writeData_handle: "snd (writeData Encode_block h block) = h\<lparr>encoder := snd (Encode_block block (encoder h) 0)\<rparr>"
  by (simp add: writeData_def split: prod.splits)

lemma readData_handle: "snd (readData Decode_block h) = h\<lparr>decoder := snd (Decode_block (decoder h) 0)\<rparr>"
  by (simp add: readData_def split: prod.splits sum.splits)

lemma close_handle: "fst (snd (close h)) = h\<lparr>client := None\<rparr>"
  by (cases "client h") (simp_all add: close_def)

lemma after_location:
  "query_keeps query \<Longrightarrow> location (after query Encode_block Decode_block h op) = location h"
  by (cases op) (simp_all add: ping_handle writeData_handle readData_handle close_handle query_keeps_def)

lemma after_client:
  "query_keeps query \<Longrightarrow>
   client (after query Encode_block Decode_block h op) = (if op = OpClose then None else client h)"
  by (cases op) (simp_all add: ping_handle writeData_handle readData_handle close_handle query_keeps_def)

lemma run_location:
  "query_keeps query \<Longrightarrow> location (foldl (after query Encode_block Decode_block) h ops) = location h"
  by (induction ops arbitrary: h) (simp_all add: after_location del: after.simps)

lemma run_client:
  "query_keeps query \<Longrightarrow>
   client (foldl (after query Encode_block Decode_block) h ops) =
     (if OpClose \<in> set ops then None else client h)"
  by (induction ops arbitrary: h) (auto simp: after_client simp del: after.simps)

lemma read_locations_client:
  "read_locations LoadLocation scans conn = Inr h \<Longrightarrow> client h = client conn"
  by (induction scans arbitrary: conn) (auto simp: Let_def split: sum.splits)

lemma dialHttp_client:
  assumes "query_keeps query"
    and "dialHttp query LoadLocation Sprint enc0 dec0 ctx addr num opt = Inr h"
  shows "client h \<noteq> None"
proof -
  let ?c = "dial_conn Sprint enc0 dec0 addr opt :: ('a, 'b, 'c, 'd) httpConnect"
  obtain r conn where q: "query ?c ctx ReleaseNoop ''SELECT timeZone()'' = (r, conn)"
    by (cases "query ?c ctx ReleaseNoop ''SELECT timeZone()''") auto
  from assms(1) have "client (snd (query ?c ctx ReleaseNoop ''SELECT timeZone()'')) = client ?c"
    unfolding query_keeps_def by blast
  with q have c: "client conn \<noteq> None"
    by (simp add: dial_conn_def)
  from assms(2) q obtain rows :: Rows where "read_locations LoadLocation (Scans rows) conn = Inr h"
    by (auto simp: dialHttp_def split: sum.splits)
  from read_locations_client [OF this] c show ?thesis
    by simp
qed

text \<open>
  C9: let the query path leave the transport handle, the timezone and the endpoint of a
  handle as they are. A handle that \<^verbatim>\<open>dialHttp\<close> returns has a transport handle. Every
  operation leaves the timezone as it is. An operation that changes the transport handle is
  \<^verbatim>\<open>close\<close>, and it sets it to nil; on a handle whose transport handle is nil every
  operation leaves it nil. The same holds of every sequence of operations: the timezone stays,
  a nil transport handle stays nil, and a transport handle is nil afterwards only if it was
  nil before or \<^verbatim>\<open>close\<close> was among the operations.
\<close>

theorem handle_one_way:
  assumes "query_keeps query"
  shows
    "(dialHttp query LoadLocation Sprint enc0 dec0 ctx addr num opt = Inr conn \<longrightarrow> client conn \<noteq> None) \<and>
     location (after query Encode_block Decode_block h op) = location h \<and>
     (client (after query Encode_block Decode_block h op) \<noteq> client h \<longrightarrow>
        op = OpClose \<and> client (after query Encode_block Decode_block h op) = None) \<and>
     (client h = None \<longrightarrow> client (after query Encode_block Decode_block h op) = None) \<and>
     location (foldl (after query Encode_block Decode_block) h ops) = location h \<and>
     (client h = None \<longrightarrow> client (foldl (after query Encode_block Decode_block) h ops) = None) \<and>
     (client (foldl (after query Encode_block Decode_block) h ops) = None \<longrightarrow>
        client h = None \<or> OpClose \<in> set ops)"
proof -
  have "dialHttp query LoadLocation Sprint enc0 dec0 ctx addr num opt = Inr conn \<longrightarrow> client conn \<noteq> None"
    using dialHttp_client [OF assms] by blast
  with assms show ?thesis
    by (simp add: after_location after_client run_location run_client del: after.simps)
qed

theorem handle_one_way_witness:
  "query_keeps (example_query (Inr \<lparr>Columns = [''1''], Scans = []\<rparr>)) \<and>
   location (foldl (after (example_query (Inr \<lparr>Columns = [''1''], Scans = []\<rparr>))
                      (\<lambda>block e rev. (None, e)) (\<lambda>d rev. (Inr ''block'', d)))
               open_handle
               ([OpPing (), OpWriteData ''block'', OpClose, OpReadData, OpPing (), OpClose]
                  :: (unit, string, string, string) operation list)) = Some ''Europe/Berlin'' \<and>
   client (foldl (after (example_query (Inr \<lparr>Columns = [''1''], Scans = []\<rparr>))
                    (\<lambda>block e rev. (None, e)) (\<lambda>d rev. (Inr ''block'', d)))
             closed_handle
             ([OpPing (), OpReadData, OpAsyncInsert () ''INSERT'' True, OpIsBad]
                :: (unit, string, string, string) operation list)) = None"
proof -
  have k: "query_keeps (example_query (Inr \<lparr>Columns = [''1''], Scans = []\<rparr>))"
    by (simp add: query_keeps_def example_query_def)
  show ?thesis
    using k
      handle_one_way [OF k, where h = open_handle and op = OpClose and conn = open_handle
        and LoadLocation = example_LoadLocation and Sprint = "\<lambda>v. v" and addr = "''localhost:8123''"
        and num = 1 and opt = example_options
        and Encode_block = "\<lambda>block e rev. (None, e)" and Decode_block = "\<lambda>d rev. (Inr ''block'', d)"
        and ops = "[OpPing (), OpWriteData ''block'', OpClose, OpReadData, OpPing (), OpClose]
                     :: (unit, string, string, string) operation list"]
      handle_one_way [OF k, where h = closed_handle and op = "OpPing ()" and conn = open_handle
        and LoadLocation = example_LoadLocation and Sprint = "\<lambda>v. v" and addr = "''localhost:8123''"
        and num = 1 and opt = example_options
        and Encode_block = "\<lambda>block e rev. (None, e)" and Decode_block = "\<lambda>d rev. (Inr ''block'', d)"
        and ops = "[OpPing (), OpReadData, OpAsyncInsert () ''INSERT'' True, OpIsBad]
                     :: (unit, string, string, string) operation list"]
    by (auto simp: open_handle_def closed_handle_def simp del: after.simps foldl_Cons)
qed

subsection \<open>The output format parameter\<close>

text \<open>Hex digits and unreserved bytes.\<close>

lemma less_16_cases:
  "n < 16 \<Longrightarrow> n \<in> {0, 1, 2, 3, 4, 5, 6, 7, 8, 9, 10, 11, 12, 13, 14, 15 :: nat}"
  by simp arith

lemma upperhex_ishex: "n < 16 \<Longrightarrow> ishex (upperhex n)"
  by (drule less_16_cases) (auto simp: upperhex_def ishex_def byte_in_def less_eq_char_def)

lemma unhex_upperhex: "n < 16 \<Longrightarrow> unhex (upperhex n) = n"
  by (drule less_16_cases) (auto simp: upperhex_def unhex_def byte_in_def less_eq_char_def)

lemma upperhex_not_separator:
  "n < 16 \<Longrightarrow> upperhex n \<notin> {CHR ''&'', CHR ''='', CHR '';''}"
  by (drule less_16_cases) (auto simp: upperhex_def)

lemma unreserved_plain:
  "\<not> shouldEscape c \<Longrightarrow> c \<notin> {CHR ''%'', CHR ''+'', CHR ''&'', CHR ''='', CHR '';''}"
  by (auto simp: shouldEscape_def byte_in_def less_eq_char_def)

lemma of_char_div: "(of_char c :: nat) div 16 < 16"
proof -
  have "(of_char c :: nat) < 256" by simp
  then show ?thesis by arith
qed

text \<open>Unescaping undoes escaping, and an escaped string has no separator in it.\<close>

lemma QueryUnescape_escape_byte:
  "QueryUnescape (escape_byte c @ t) =
     (case QueryUnescape t of Inl e \<Rightarrow> Inl e | Inr r \<Rightarrow> Inr (c # r))"
proof (cases "c = CHR '' ''")
  case True
  then show ?thesis
    by (simp add: escape_byte_def split: sum.splits)
next
  case False
  show ?thesis
  proof (cases "shouldEscape c")
    case True
    have "(of_char c :: nat) mod 16 < 16"
      by simp
    with True False of_char_div [of c] show ?thesis
      by (simp add: escape_byte_def upperhex_ishex unhex_upperhex split: sum.splits)
  next
    case no: False
    with unreserved_plain [OF no] False show ?thesis
      by (simp add: escape_byte_def split: sum.splits)
  qed
qed

lemma QueryUnescape_QueryEscape: "QueryUnescape (QueryEscape s) = Inr s"
  by (induction s) (simp_all add: QueryEscape_def QueryUnescape_escape_byte)

lemma escape_byte_no_separator:
  "set (escape_byte c) \<inter> {CHR ''&'', CHR ''='', CHR '';''} = {}"
proof (cases "shouldEscape c")
  case True
  have "(of_char c :: nat) mod 16 < 16"
    by simp
  with True of_char_div [of c]
    upperhex_not_separator [of "of_char c div 16"] upperhex_not_separator [of "of_char c mod 16"]
  show ?thesis
    by (auto simp: escape_byte_def)
next
  case False
  with unreserved_plain [OF False] show ?thesis
    by (auto simp: escape_byte_def)
qed

lemma QueryEscape_no_separator:
  "set (QueryEscape s) \<inter> {CHR ''&'', CHR ''='', CHR '';''} = {}"
proof (induction s)
  case Nil
  then show ?case by (simp add: QueryEscape_def)
next
  case (Cons c s)
  have "QueryEscape (c # s) = escape_byte c @ QueryEscape s"
    by (simp add: QueryEscape_def)
  with Cons escape_byte_no_separator [of c] show ?case
    by (simp add: Int_Un_distrib2)
qed

text \<open>\<open>parseQuery\<close> reads encoded pairs back, one by one.\<close>

lemma Cut_found: "sep \<notin> set a \<Longrightarrow> Cut (a @ sep # b) sep = (a, b, True)"
  by (induction a) (auto simp: Cut_def)

lemma Cut_not_found: "sep \<notin> set a \<Longrightarrow> Cut a sep = (a, [], False)"
  by (simp add: Cut_def)

lemma pair_string_nonempty: "pair_string p \<noteq> []"
  by (simp add: pair_string_def)

lemma pair_string_no_amp: "CHR ''&'' \<notin> set (pair_string p)"
  using QueryEscape_no_separator [of "fst p"] QueryEscape_no_separator [of "snd p"]
  by (auto simp: pair_string_def)

lemma pair_string_no_semicolon: "CHR '';'' \<notin> set (pair_string p)"
  using QueryEscape_no_separator [of "fst p"] QueryEscape_no_separator [of "snd p"]
  by (auto simp: pair_string_def)

lemma pair_string_Cut:
  "Cut (pair_string p) (CHR ''='') = (QueryEscape (fst p), QueryEscape (snd p), True)"
proof -
  have "CHR ''='' \<notin> set (QueryEscape (fst p))"
    using QueryEscape_no_separator [of "fst p"] by auto
  from Cut_found [OF this] show ?thesis
    by (simp add: pair_string_def)
qed

lemma parseQuery_piece:
  assumes "Cut query (CHR ''&'') = (pair_string p, rest, found)" and "query \<noteq> []"
  shows "parseQuery m query = parseQuery (add_pair m p) rest"
  using assms pair_string_no_semicolon [of p] pair_string_nonempty [of p]
  by (subst parseQuery.simps)
     (simp add: pair_string_Cut QueryUnescape_QueryEscape add_pair_def del: parseQuery.simps)

lemma parseQuery_empty: "parseQuery m [] = m"
  by simp

lemma parseQuery_pair_last: "parseQuery m (pair_string p) = add_pair m p"
  using parseQuery_piece [OF Cut_not_found [OF pair_string_no_amp [of p]] pair_string_nonempty, of m]
  by (simp del: parseQuery.simps add: parseQuery_empty)

lemma parseQuery_pair_more:
  "parseQuery m (pair_string p @ CHR ''&'' # rest) = parseQuery (add_pair m p) rest"
  using parseQuery_piece [OF Cut_found [OF pair_string_no_amp [of p], of rest], of m]
  by simp

lemma parseQuery_pairs:
  "parseQuery m (pair_string p @ tail_pairs ps) = foldl add_pair (add_pair m p) ps"
proof (induction ps arbitrary: m p)
  case Nil
  then show ?case
    by (simp add: tail_pairs_def parseQuery_pair_last del: parseQuery.simps)
next
  case (Cons q ps)
  have "pair_string p @ tail_pairs (q # ps) = pair_string p @ CHR ''&'' # (pair_string q @ tail_pairs ps)"
    by (simp add: tail_pairs_def)
  then show ?case
    using Cons.IH [of "add_pair m p" q] by (simp add: parseQuery_pair_more del: parseQuery.simps)
qed

text \<open>\<open>Encode\<close> writes the pairs of the values, the first one without a separator.\<close>

lemma encode_step_nonempty: "encode_step buf p \<noteq> []"
  by (simp add: encode_step_def encode_pair_def)

lemma encode_step_first: "encode_step [] p = pair_string p"
  by (simp add: encode_step_def encode_pair_def pair_string_def)

lemma encode_step_next: "buf \<noteq> [] \<Longrightarrow> encode_step buf p = buf @ CHR ''&'' # pair_string p"
  by (simp add: encode_step_def encode_pair_def pair_string_def)

lemma foldl_encode_step_nonempty:
  "buf \<noteq> [] \<Longrightarrow> foldl encode_step buf ps = buf @ tail_pairs ps"
proof (induction ps arbitrary: buf)
  case Nil
  then show ?case by (simp add: tail_pairs_def)
next
  case (Cons p ps)
  from Cons.IH [OF encode_step_nonempty, of buf p] Cons.prems show ?case
    by (simp add: encode_step_next tail_pairs_def)
qed

lemma foldl_encode_step:
  "foldl encode_step [] ps = (case ps of [] \<Rightarrow> [] | p # qs \<Rightarrow> pair_string p @ tail_pairs qs)"
proof (cases ps)
  case Nil
  then show ?thesis by simp
next
  case (Cons p qs)
  with foldl_encode_step_nonempty [OF pair_string_nonempty, of p qs] show ?thesis
    by (simp add: encode_step_first)
qed

lemma foldl_encode_values:
  "foldl (encode_pair (QueryEscape k)) buf vs = foldl encode_step buf (map (Pair k) vs)"
  by (induction vs arbitrary: buf) (simp_all add: encode_step_def)

lemma foldl_encode_keys:
  "foldl (\<lambda>buf k. foldl (encode_pair (QueryEscape k)) buf (f k)) buf ks =
   foldl encode_step buf (concat (map (\<lambda>k. map (Pair k) (f k)) ks))"
  by (induction ks arbitrary: buf) (simp_all add: foldl_encode_values)

lemma Encode_pairs: "Encode v = foldl encode_step [] (Values_pairs v)"
proof (cases v)
  case Nil
  then show ?thesis
    by (simp add: Encode_def Values_pairs_def)
next
  case (Cons a list)
  then show ?thesis
    by (simp add: Encode_def Values_pairs_def foldl_encode_keys)
qed

lemma Query_Encode: "parseQuery [] (Encode v) = foldl add_pair [] (Values_pairs v)"
proof (cases "Values_pairs v")
  case Nil
  then show ?thesis
    by (simp add: Encode_pairs)
next
  case (Cons p qs)
  then have "Encode v = pair_string p @ tail_pairs qs"
    by (simp only: Encode_pairs foldl_encode_step list.case)
  with Cons show ?thesis
    by (simp only: parseQuery_pairs foldl_Cons)
qed

text \<open>Looking a key up after \<open>Encode\<close> and \<open>parseQuery\<close> gives the values it had.\<close>

lemma lookup_update:
  "Values_lookup (AList.update k vs m) key = (if key = k then vs else Values_lookup m key)"
  by (simp add: Values_lookup_def update_conv')

lemma lookup_Set:
  "Values_lookup (Values_Set k v m) key = (if key = k then [v] else Values_lookup m key)"
  by (simp add: Values_Set_def lookup_update)

lemma lookup_add_pair:
  "Values_lookup (add_pair m p) key =
     (if key = fst p then Values_lookup m key @ [snd p] else Values_lookup m key)"
  by (simp add: add_pair_def Values_Add_def lookup_update)

lemma lookup_foldl_add_pair:
  "Values_lookup (foldl add_pair m ps) key =
     Values_lookup m key @ map snd (filter (\<lambda>p. fst p = key) ps)"
  by (induction ps arbitrary: m) (simp_all add: lookup_add_pair)

lemma pairs_of_key:
  "distinct ks \<Longrightarrow>
   map snd (filter (\<lambda>p. fst p = key) (concat (map (\<lambda>k. map (Pair k) (f k)) ks))) =
     (if key \<in> set ks then f key else [])"
proof (induction ks)
  case Nil
  then show ?case by simp
next
  case (Cons k ks)
  have same: "map snd (filter (\<lambda>p. fst p = key) (map (Pair k) vs)) = (if k = key then vs else [])" for vs
    by (induction vs) auto
  from Cons show ?case
    by (auto simp: same)
qed

lemma lookup_absent: "key \<notin> fst ` set v \<Longrightarrow> Values_lookup v key = []"
  using map_of_eq_None_iff [of v key] by (simp add: Values_lookup_def)

lemma lookup_empty: "Values_lookup [] key = []"
  by (simp add: Values_lookup_def)

lemma Query_Encode_lookup:
  assumes "distinct (map fst v)"
  shows "Values_lookup (parseQuery [] (Encode v)) key = Values_lookup v key"
proof -
  have d: "distinct (sort (map fst v))"
    using assms by simp
  have "Values_lookup (parseQuery [] (Encode v)) key =
      map snd (filter (\<lambda>p. fst p = key) (Values_pairs v))"
    by (simp add: Query_Encode lookup_foldl_add_pair lookup_empty del: parseQuery.simps)
  also have "\<dots> = (if key \<in> set (sort (map fst v)) then Values_lookup v key else [])"
    unfolding Values_pairs_def by (rule pairs_of_key [OF d])
  also have "\<dots> = Values_lookup v key"
    by (simp add: lookup_absent)
  finally show ?thesis .
qed

lemma distinct_Set: "distinct (map fst m) \<Longrightarrow> distinct (map fst (Values_Set k v m))"
  by (simp add: Values_Set_def distinct_update)

text \<open>Copying the settings into the query, in \<^verbatim>\<open>dialHttp\<close> and in \<^verbatim>\<open>prepareRequest\<close>.\<close>

lemma overlay_lookup:
  "Values_lookup
     (foldl (\<lambda>q (key, val). if key = ''default_format'' then q else Values_Set key (Sprint val) q) q T)
     ''default_format'' = Values_lookup q ''default_format''"
  by (induction T arbitrary: q) (auto simp: lookup_Set)

lemma overlay_distinct:
  "distinct (map fst q) \<Longrightarrow>
   distinct (map fst
     (foldl (\<lambda>q (key, val). if key = ''default_format'' then q else Values_Set key (Sprint val) q) q T))"
  by (induction T arbitrary: q) (auto simp: distinct_Set)

lemma overlay_filter:
  "foldl (\<lambda>q (key, val). if key = ''default_format'' then q else Values_Set key (Sprint val) q) q T =
   foldl (\<lambda>q (key, val). if key = ''default_format'' then q else Values_Set key (Sprint val) q) q
     (filter (\<lambda>e. fst e \<noteq> ''default_format'') T)"
  by (induction T arbitrary: q) auto

lemma settings_distinct:
  "distinct (map fst q) \<Longrightarrow>
   distinct (map fst (foldl (\<lambda>q (k, v). Values_Set k (Sprint v) q) q S))"
  by (induction S arbitrary: q) (auto simp: distinct_Set)

lemma dial_url_default_format:
  "Values_lookup (Query (dial_url Sprint addr opt)) ''default_format'' = [''Native'']"
proof -
  let ?vals = "Values_Set ''default_format'' ''Native''
      (foldl (\<lambda>q (k, v). Values_Set k (Sprint v) q) [] (Settings opt))"
  have "distinct (map fst ?vals)"
    by (simp add: distinct_Set settings_distinct)
  from Query_Encode_lookup [OF this, of "''default_format''"]
  have "Values_lookup (parseQuery [] (Encode ?vals)) ''default_format'' = [''Native'']"
    by (simp add: lookup_Set del: parseQuery.simps)
  then show ?thesis
    by (simp add: dial_url_def Query_def Let_def parseQuery_empty del: parseQuery.simps)
qed

lemma distinct_Add: "distinct (map fst m) \<Longrightarrow> distinct (map fst (Values_Add k v m))"
  by (simp add: Values_Add_def distinct_update)

lemma parseQuery_distinct:
  "distinct (map fst m) \<Longrightarrow> distinct (map fst (parseQuery m query))"
proof (induction m query rule: parseQuery.induct)
  case (1 m query)
  show ?case
  proof (cases "query = []")
    case True
    with "1.prems" show ?thesis
      by simp
  next
    case False
    obtain key rest found where c: "Cut query (CHR ''&'') = (key, rest, found)"
      by (cases "Cut query (CHR ''&'')") auto
    obtain k val f where d: "Cut key (CHR ''='') = (k, val, f)"
      by (cases "Cut key (CHR ''='')") auto
    note ih = "1.IH" [OF False c [symmetric] refl]
    from False c d "1.prems" ih show ?thesis
      by (subst parseQuery.simps)
         (auto simp: distinct_Add simp del: parseQuery.simps split: sum.splits)
  qed
qed

lemma read_locations_url:
  "read_locations LoadLocation scans conn = Inr h \<Longrightarrow> url h = url conn"
  by (induction scans arbitrary: conn) (auto simp: Let_def split: sum.splits)

lemma dialHttp_url:
  assumes "query_keeps query"
    and "dialHttp query LoadLocation Sprint enc0 dec0 ctx addr num opt = Inr h"
  shows "url h = dial_url Sprint addr opt"
proof -
  let ?c = "dial_conn Sprint enc0 dec0 addr opt :: ('a, 'b, 'c, 'd) httpConnect"
  obtain r conn where q: "query ?c ctx ReleaseNoop ''SELECT timeZone()'' = (r, conn)"
    by (cases "query ?c ctx ReleaseNoop ''SELECT timeZone()''") auto
  from assms(1) have "url (snd (query ?c ctx ReleaseNoop ''SELECT timeZone()'')) = url ?c"
    unfolding query_keeps_def by blast
  with q have c: "url conn = dial_url Sprint addr opt"
    by (simp add: dial_conn_def)
  from assms(2) q obtain rows :: Rows where "read_locations LoadLocation (Scans rows) conn = Inr h"
    by (auto simp: dialHttp_def split: sum.splits)
  from read_locations_url [OF this] c show ?thesis
    by simp
qed

lemma Get_single: "Values_lookup v key = [x] \<Longrightarrow> Values_Get key v = x"
  by (simp add: Values_Get_def)

text \<open>Neither an escaped string nor an encoded query holds \<open>?\<close> or \<open>#\<close>.\<close>

lemma upperhex_not_mark: "n < 16 \<Longrightarrow> upperhex n \<notin> {CHR ''?'', CHR ''#''}"
  by (drule less_16_cases) (auto simp: upperhex_def)

lemma unreserved_not_mark: "\<not> shouldEscape c \<Longrightarrow> c \<notin> {CHR ''?'', CHR ''#''}"
  by (auto simp: shouldEscape_def byte_in_def less_eq_char_def)

lemma host_plain_not_mark: "\<not> shouldEscape_host c \<Longrightarrow> c \<notin> {CHR ''?'', CHR ''#''}"
  by (auto simp: shouldEscape_host_def byte_in_def less_eq_char_def)

lemma escape_byte_no_mark: "set (escape_byte c) \<inter> {CHR ''?'', CHR ''#''} = {}"
proof (cases "shouldEscape c")
  case True
  have "(of_char c :: nat) mod 16 < 16"
    by simp
  with True of_char_div [of c]
    upperhex_not_mark [of "of_char c div 16"] upperhex_not_mark [of "of_char c mod 16"]
  show ?thesis
    by (auto simp: escape_byte_def)
next
  case False
  with unreserved_not_mark [OF False] show ?thesis
    by (auto simp: escape_byte_def)
qed

lemma escape_host_byte_no_mark: "set (escape_host_byte c) \<inter> {CHR ''?'', CHR ''#''} = {}"
proof (cases "shouldEscape_host c")
  case True
  have "(of_char c :: nat) mod 16 < 16"
    by simp
  with True of_char_div [of c]
    upperhex_not_mark [of "of_char c div 16"] upperhex_not_mark [of "of_char c mod 16"]
  show ?thesis
    by (auto simp: escape_host_byte_def)
next
  case False
  with host_plain_not_mark [OF False] show ?thesis
    by (auto simp: escape_host_byte_def)
qed

lemma QueryEscape_no_mark: "set (QueryEscape s) \<inter> {CHR ''?'', CHR ''#''} = {}"
  using escape_byte_no_mark by (induction s) (auto simp: QueryEscape_def)

lemma escape_host_no_mark: "set (escape_host s) \<inter> {CHR ''?'', CHR ''#''} = {}"
  using escape_host_byte_no_mark by (induction s) (auto simp: escape_host_def)

lemma pair_string_no_mark: "set (pair_string p) \<inter> {CHR ''?'', CHR ''#''} = {}"
  using QueryEscape_no_mark [of "fst p"] QueryEscape_no_mark [of "snd p"]
  by (auto simp: pair_string_def)

lemma tail_pairs_no_mark: "set (tail_pairs ps) \<inter> {CHR ''?'', CHR ''#''} = {}"
  using pair_string_no_mark by (induction ps) (auto simp: tail_pairs_def)

lemma Encode_no_mark: "set (Encode v) \<inter> {CHR ''?'', CHR ''#''} = {}"
proof (cases "Values_pairs v")
  case Nil
  then show ?thesis
    by (simp add: Encode_pairs)
next
  case (Cons p qs)
  then have "Encode v = pair_string p @ tail_pairs qs"
    by (simp only: Encode_pairs foldl_encode_step list.case)
  with pair_string_no_mark [of p] tail_pairs_no_mark [of qs] show ?thesis
    by (simp add: Int_Un_distrib2)
qed

text \<open>\<^verbatim>\<open>getScheme\<close> returns the whole string, or cuts it at a colon that no \<open>?\<close> precedes.\<close>

lemma getScheme_from_split:
  "getScheme_from rawURL pre cs = Inr (scheme, rest) \<Longrightarrow> CHR ''?'' \<notin> set pre \<Longrightarrow>
   rest = rawURL \<or> (\<exists>mid. pre @ cs = mid @ CHR '':'' # rest \<and> CHR ''?'' \<notin> set mid)"
proof (induction rawURL pre cs rule: getScheme_from.induct)
  case (1 rawURL pre)
  then show ?case by simp
next
  case (2 rawURL pre c cs)
  show ?case
  proof (cases "c = CHR ''?''")
    case True
    with "2.prems" show ?thesis
      by (simp add: byte_in_def less_eq_char_def)
  next
    case False
    with "2.prems" "2.IH" show ?thesis
      by (auto split: if_splits)
  qed
qed

lemma getScheme_split:
  "getScheme rawURL = Inr (scheme, rest) \<Longrightarrow>
   rest = rawURL \<or> (\<exists>mid. rawURL = mid @ CHR '':'' # rest \<and> CHR ''?'' \<notin> set mid)"
  using getScheme_from_split [of rawURL "[]" rawURL scheme rest] by (simp add: getScheme_def)

lemma split_at_first:
  assumes "xs @ ys = a @ c # q" and "c \<notin> set xs" and "c \<notin> set a"
  shows "\<exists>a'. ys = a' @ c # q \<and> c \<notin> set a'"
proof -
  from assms(1) consider us where "xs = a @ us" and "us @ ys = c # q"
    | us where "xs @ us = a" and "ys = us @ c # q"
    by (auto simp: append_eq_append_conv2)
  then show ?thesis
  proof cases
    case 1
    with assms(2) have "us = []"
      by (cases us) auto
    with 1 show ?thesis
      by auto
  next
    case 2
    with assms(3) show ?thesis
      by auto
  qed
qed

lemma url_parse_RawQuery:
  assumes "CHR ''?'' \<notin> set a" and "CHR ''?'' \<notin> set q" and "q \<noteq> []"
    and "url_parse parse_hier (a @ CHR ''?'' # q) = Inr u"
  shows "RawQuery u = q"
proof -
  let ?raw = "a @ CHR ''?'' # q"
  have ne: "?raw \<noteq> ''*''"
  proof
    assume "?raw = ''*''"
    then have "set ?raw = set ''*''"
      by simp
    then show False
      by auto
  qed
  from assms(4) ne obtain scheme rest where g: "getScheme ?raw = Inr (scheme, rest)"
    by (auto simp: url_parse_def split: if_splits sum.splits)
  have "\<exists>a'. rest = a' @ CHR ''?'' # q \<and> CHR ''?'' \<notin> set a'"
  proof -
    from getScheme_split [OF g] consider "rest = ?raw"
      | mid where "?raw = mid @ CHR '':'' # rest" and "CHR ''?'' \<notin> set mid"
      by blast
    then show ?thesis
    proof cases
      case 1
      with assms(1) show ?thesis by blast
    next
      case 2
      then have "(mid @ '':'') @ rest = a @ CHR ''?'' # q" and "CHR ''?'' \<notin> set (mid @ '':'')"
        by simp_all
      from split_at_first [OF this assms(1)] show ?thesis .
    qed
  qed
  then obtain a' where r: "rest = a' @ CHR ''?'' # q" and a': "CHR ''?'' \<notin> set a'"
    by blast
  from r assms(2,3) have l: "last rest \<noteq> CHR ''?''"
    by (metis last_appendR last_in_set list.distinct(1) last_ConsR)
  have c: "Cut rest (CHR ''?'') = (a', q, True)"
    unfolding r by (rule Cut_found [OF a'])
  from assms(4) ne g l c show ?thesis
    by (auto simp: url_parse_def split: if_splits sum.splits)
qed

lemma Parse_RawQuery:
  assumes "CHR ''?'' \<notin> set a" and "CHR ''#'' \<notin> set a"
    and "CHR ''?'' \<notin> set q" and "CHR ''#'' \<notin> set q" and "q \<noteq> []"
    and "Parse parse_hier setFragment (a @ CHR ''?'' # q) = Inr u"
  shows "RawQuery u = q"
proof -
  have "CHR ''#'' \<notin> set (a @ CHR ''?'' # q)"
    using assms(2,4) by simp
  from Cut_not_found [OF this] assms(6)
  have "url_parse parse_hier (a @ CHR ''?'' # q) = Inr u"
    by (simp add: Parse_def split: sum.splits)
  from url_parse_RawQuery [OF assms(1,3,5) this] show ?thesis .
qed


text \<open>The request that the constructor returns has the raw query of the rendered URL.\<close>

lemma URL_String_shape:
  assumes "RawQuery u \<noteq> []"
  shows "URL_String u =
     ((if Scheme u \<noteq> [] then Scheme u @ '':'' else []) @
      (if Host u \<noteq> [] then ''//'' @ escape_host (Host u) else [])) @ CHR ''?'' # RawQuery u"
  using assms by (simp add: URL_String_def)

lemma URL_String_prefix_no_mark:
  assumes "CHR ''?'' \<notin> set (Scheme u)" and "CHR ''#'' \<notin> set (Scheme u)"
  shows "CHR ''?'' \<notin> set ((if Scheme u \<noteq> [] then Scheme u @ '':'' else []) @
           (if Host u \<noteq> [] then ''//'' @ escape_host (Host u) else []))"
    and "CHR ''#'' \<notin> set ((if Scheme u \<noteq> [] then Scheme u @ '':'' else []) @
           (if Host u \<noteq> [] then ''//'' @ escape_host (Host u) else []))"
  using assms escape_host_no_mark [of "Host u"] by auto

lemma NewRequestWithContext_RawQuery:
  assumes "CHR ''?'' \<notin> set (Scheme u)" and "CHR ''#'' \<notin> set (Scheme u)"
    and "RawQuery u \<noteq> []" and "set (RawQuery u) \<inter> {CHR ''?'', CHR ''#''} = {}"
    and "NewRequestWithContext parse_hier setFragment ctx method (URL_String u) reader = Inr req"
  shows "RawQuery (req_URL req) = RawQuery u"
proof -
  from assms(5) obtain c u' where "ctx = Some c"
    and p: "Parse parse_hier setFragment (URL_String u) = Inr u'" and r: "req_URL req = u'"
    by (auto simp: NewRequestWithContext_def split: option.splits sum.splits)
  from assms(4) have "CHR ''?'' \<notin> set (RawQuery u)" and "CHR ''#'' \<notin> set (RawQuery u)"
    by auto
  from Parse_RawQuery [OF URL_String_prefix_no_mark [OF assms(1,2)] this assms(3)
      p [unfolded URL_String_shape [OF assms(3)]]] r
  show ?thesis
    by simp
qed

lemma prepareRequest_returned:
  "prepareRequest parse_hier setFragment Sprint h ctx reader options = Returns (Inr req') \<Longrightarrow>
   \<exists>req. NewRequestWithContext parse_hier setFragment ctx ''POST'' (URL_String (url h)) reader = Inr req"
  by (cases options;
      cases "NewRequestWithContext parse_hier setFragment ctx ''POST'' (URL_String (url h)) reader")
     (simp_all add: prepareRequest_def)

lemma prepareRequest_default_format:
  assumes "NewRequestWithContext parse_hier setFragment ctx ''POST'' (URL_String (url h)) reader = Inr req"
    and "Values_lookup (Query (req_URL req)) ''default_format'' = [''Native'']"
  shows "\<exists>req'. prepareRequest parse_hier setFragment Sprint h ctx reader options = Returns (Inr req') \<and>
           Values_lookup (Query (req_URL req')) ''default_format'' = [''Native'']"
proof (cases options)
  case None
  with assms show ?thesis
    by (simp add: prepareRequest_def)
next
  case (Some opts)
  define q1 where "q1 = (if queryID opts \<noteq> []
      then Values_Set queryIDParamName (queryID opts) (Query (req_URL req)) else Query (req_URL req))"
  define q2 where "q2 = (if quotaKey opts \<noteq> []
      then Values_Set quotaKeyParamName (quotaKey opts) q1 else q1)"
  define q3 where "q3 = foldl (\<lambda>q (key, val).
      if key = ''default_format'' then q else Values_Set key (Sprint val) q) q2 (settings opts)"
  have r: "prepareRequest parse_hier setFragment Sprint h ctx reader options =
      Returns (Inr (req\<lparr>req_URL := (req_URL req)\<lparr>RawQuery := Encode q3\<rparr>\<rparr>))"
    using assms(1) Some by (simp add: prepareRequest_def Let_def q1_def q2_def q3_def)
  have "distinct (map fst (Query (req_URL req)))"
    by (simp add: Query_def parseQuery_distinct del: parseQuery.simps)
  then have "distinct (map fst q3)"
    by (simp add: q1_def q2_def q3_def distinct_Set overlay_distinct)
  from Query_Encode_lookup [OF this, of "''default_format''"]
  have "Values_lookup (parseQuery [] (Encode q3)) ''default_format'' =
      Values_lookup q3 ''default_format''" .
  also have "\<dots> = Values_lookup q2 ''default_format''"
    by (simp add: q3_def overlay_lookup)
  also have "\<dots> = Values_lookup (Query (req_URL req)) ''default_format''"
    by (simp add: q1_def q2_def lookup_Set queryIDParamName_def quotaKeyParamName_def)
  finally show ?thesis
    using assms(2) by (simp add: r Query_def del: parseQuery.simps)
qed

lemma dial_url_fields:
  "Scheme (dial_url Sprint addr opt) = opt_Scheme opt"
  "Host (dial_url Sprint addr opt) = addr"
  "set (RawQuery (dial_url Sprint addr opt)) \<inter> {CHR ''?'', CHR ''#''} = {}"
  by (simp_all add: dial_url_def Let_def Encode_no_mark del: parseQuery.simps)

lemma dial_url_query_nonempty: "RawQuery (dial_url Sprint addr opt) \<noteq> []"
proof
  assume "RawQuery (dial_url Sprint addr opt) = []"
  then have "Values_lookup (Query (dial_url Sprint addr opt)) ''default_format'' = []"
    by (simp add: Query_def lookup_empty)
  with dial_url_default_format [of Sprint addr opt] show False
    by simp
qed


lemma example_prepared:
  "prepareRequest example_parse_hier example_setFragment (\<lambda>v. v)
     ((dial_conn (\<lambda>v. v) () () ''localhost:8123'' example_options)\<lparr>location := Some ''UTC''\<rparr>
        :: (unit, string, unit, unit) httpConnect)
     (Some ()) ''SELECT 1''
     (Some \<lparr>queryID = ''q 1'', quotaKey = [],
            settings = [(''default_format'', ''CSV''), (''max_threads'', ''4'')]\<rparr>) =
   Returns (Inr \<lparr>req_ctx = (), Method = ''POST'',
                 req_URL = \<lparr>Scheme = ''http'', Host = ''localhost:8123'',
                   RawQuery = ''default_format=Native&max_execution_time=60&max_threads=4&query_id=q+1''\<rparr>,
                 req_Body = ''SELECT 1''\<rparr>)"
  by code_simp

text \<open>
  The scheme of the options goes into the rendered URL as it is. With the scheme
  \<open>http://localhost:8123?default_format=JSON#\<close> the dial succeeds, and the URL that the
  constructor parses ends at the \<open>#\<close>: the forced parameter is in the fragment, and the
  request that \<^verbatim>\<open>prepareRequest\<close> returns has \<open>default_format\<close> set to \<open>JSON\<close>.
\<close>

theorem default_format_overridden:
  "dialHttp (example_query (Inr \<lparr>Columns = [''timeZone()''], Scans = []\<rparr>))
     example_LoadLocation id () () () ''localhost:8123'' 1
     (example_options\<lparr>opt_Scheme := ''http://localhost:8123?default_format=JSON#''\<rparr>) =
     Inr (dial_conn id () () ''localhost:8123''
            (example_options\<lparr>opt_Scheme := ''http://localhost:8123?default_format=JSON#''\<rparr>)) \<and>
   prepareRequest example_parse_hier example_setFragment id
     (dial_conn id () () ''localhost:8123''
        (example_options\<lparr>opt_Scheme := ''http://localhost:8123?default_format=JSON#''\<rparr>)
        :: (unit, string, unit, unit) httpConnect)
     (Some ()) ''SELECT 1''
     (Some \<lparr>queryID = [], quotaKey = [], settings = [(''max_threads'', ''4'')]\<rparr>) =
     Returns (Inr \<lparr>req_ctx = (), Method = ''POST'',
                   req_URL = \<lparr>Scheme = ''http'', Host = ''localhost:8123'',
                     RawQuery = ''default_format=JSON&max_threads=4''\<rparr>,
                   req_Body = ''SELECT 1''\<rparr>) \<and>
   Values_Get ''default_format''
     (Query \<lparr>Scheme = ''http'', Host = ''localhost:8123'',
        RawQuery = ''default_format=JSON&max_threads=4''\<rparr>) = ''JSON''"
  by code_simp

text \<open>
  C1, amended: take a handle that \<^verbatim>\<open>dialHttp\<close> returned, for any configured settings and
  a configured scheme that holds neither \<open>?\<close> nor \<open>#\<close> (the query path leaving the endpoint
  of the handle as it is). Then for any options, absent or present, with any per-call
  settings: every request that \<^verbatim>\<open>prepareRequest\<close> returns has, in the parsed query of its
  URL, exactly one value for \<open>default_format\<close>, \<open>Native\<close>; it returns one whenever the
  request constructor does; a per-call setting named \<open>default_format\<close> is skipped (the
  result is the one for the settings without such entries); and the endpoint of the handle
  itself has \<open>default_format\<close> set to \<open>Native\<close>.
\<close>

theorem default_format_fixed:
  assumes "query_keeps query"
    and "dialHttp query LoadLocation Sprint enc0 dec0 dial_ctx addr num opt = Inr h"
    and "CHR ''?'' \<notin> set (opt_Scheme opt)" and "CHR ''#'' \<notin> set (opt_Scheme opt)"
  shows
    "(\<forall>req'. prepareRequest parse_hier setFragment Sprint h ctx reader options = Returns (Inr req') \<longrightarrow>
        Values_lookup (Query (req_URL req')) ''default_format'' = [''Native''] \<and>
        Values_Get ''default_format'' (Query (req_URL req')) = ''Native'') \<and>
     (\<forall>req. NewRequestWithContext parse_hier setFragment ctx ''POST'' (URL_String (url h)) reader = Inr req \<longrightarrow>
        (\<exists>req'. prepareRequest parse_hier setFragment Sprint h ctx reader options = Returns (Inr req'))) \<and>
     (\<forall>opts. prepareRequest parse_hier setFragment Sprint h ctx reader (Some opts) =
        prepareRequest parse_hier setFragment Sprint h ctx reader
          (Some (opts\<lparr>settings := filter (\<lambda>e. fst e \<noteq> ''default_format'') (settings opts)\<rparr>))) \<and>
     Values_Get ''default_format'' (Query (url h)) = ''Native''"
proof -
  let ?u = "dial_url Sprint addr opt"
  have u: "url h = ?u"
    using assms(1,2) by (rule dialHttp_url)
  then have l: "Values_lookup (Query (url h)) ''default_format'' = [''Native'']"
    by (simp add: dial_url_default_format)
  have s1: "CHR ''?'' \<notin> set (Scheme ?u)" and s2: "CHR ''#'' \<notin> set (Scheme ?u)"
    using assms(3,4) by (simp_all add: dial_url_fields(1))
  have same: "RawQuery (req_URL req) = RawQuery ?u"
    if "NewRequestWithContext parse_hier setFragment ctx ''POST'' (URL_String ?u) reader = Inr req"
    for req
    using s1 s2 dial_url_query_nonempty dial_url_fields(3) that
    by (rule NewRequestWithContext_RawQuery)
  have first: "Values_lookup (Query (req_URL req')) ''default_format'' = [''Native''] \<and>
      Values_Get ''default_format'' (Query (req_URL req')) = ''Native''"
    if ret: "prepareRequest parse_hier setFragment Sprint h ctx reader options = Returns (Inr req')"
    for req'
  proof -
    from prepareRequest_returned [OF ret] obtain req
      where n: "NewRequestWithContext parse_hier setFragment ctx ''POST'' (URL_String (url h)) reader = Inr req"
      by blast
    from n have "RawQuery (req_URL req) = RawQuery (url h)"
      unfolding u by (rule same)
    then have "Query (req_URL req) = Query (url h)"
      by (simp only: Query_def)
    with l have "Values_lookup (Query (req_URL req)) ''default_format'' = [''Native'']"
      by (simp only:)
    from prepareRequest_default_format
      [where parse_hier = parse_hier and setFragment = setFragment and ctx = ctx and h = h
         and reader = reader and req = req and Sprint = Sprint and options = options, OF n this]
    obtain req'' where "prepareRequest parse_hier setFragment Sprint h ctx reader options = Returns (Inr req'')"
      and p: "Values_lookup (Query (req_URL req'')) ''default_format'' = [''Native'']"
      by blast
    with ret have "req'' = req'"
      by simp
    with p have "Values_lookup (Query (req_URL req')) ''default_format'' = [''Native'']"
      by simp
    with Get_single [OF this] show ?thesis
      by (simp only: simp_thms)
  qed
  have second: "prepareRequest parse_hier setFragment Sprint h ctx reader (Some opts) =
        prepareRequest parse_hier setFragment Sprint h ctx reader
          (Some (opts\<lparr>settings := filter (\<lambda>e. fst e \<noteq> ''default_format'') (settings opts)\<rparr>))" for opts
    using overlay_filter [of Sprint _ "settings opts"]
    by (simp add: prepareRequest_def Let_def split: sum.splits)
  show ?thesis
  proof (intro conjI allI impI)
    fix req'
    assume "prepareRequest parse_hier setFragment Sprint h ctx reader options = Returns (Inr req')"
    from first [OF this]
    show "Values_lookup (Query (req_URL req')) ''default_format'' = [''Native'']"
      and "Values_Get ''default_format'' (Query (req_URL req')) = ''Native''"
      by (simp_all only:)
  next
    fix req
    assume "NewRequestWithContext parse_hier setFragment ctx ''POST'' (URL_String (url h)) reader = Inr req"
    then show "\<exists>req'. prepareRequest parse_hier setFragment Sprint h ctx reader options = Returns (Inr req')"
      by (rule prepareRequest_request_returns)
  next
    fix opts
    show "prepareRequest parse_hier setFragment Sprint h ctx reader (Some opts) =
        prepareRequest parse_hier setFragment Sprint h ctx reader
          (Some (opts\<lparr>settings := filter (\<lambda>e. fst e \<noteq> ''default_format'') (settings opts)\<rparr>))"
      by (rule second)
  next
    show "Values_Get ''default_format'' (Query (url h)) = ''Native''"
      using l by (rule Get_single)
  qed
qed

theorem default_format_fixed_witness:
  "prepareRequest example_parse_hier example_setFragment (\<lambda>v. v)
     ((dial_conn (\<lambda>v. v) () () ''localhost:8123'' example_options)\<lparr>location := Some ''UTC''\<rparr>
        :: (unit, string, unit, unit) httpConnect)
     (Some ()) ''SELECT 1''
     (Some \<lparr>queryID = ''q 1'', quotaKey = [],
            settings = [(''default_format'', ''CSV''), (''max_threads'', ''4'')]\<rparr>) =
   Returns (Inr \<lparr>req_ctx = (), Method = ''POST'',
                 req_URL = \<lparr>Scheme = ''http'', Host = ''localhost:8123'',
                   RawQuery = ''default_format=Native&max_execution_time=60&max_threads=4&query_id=q+1''\<rparr>,
                 req_Body = ''SELECT 1''\<rparr>) \<and>
   Values_Get ''default_format''
     (Query \<lparr>Scheme = ''http'', Host = ''localhost:8123'',
        RawQuery = ''default_format=Native&max_execution_time=60&max_threads=4&query_id=q+1''\<rparr>) =
     ''Native''"
proof -
  let ?h = "(dial_conn (\<lambda>v. v) () () ''localhost:8123'' example_options)\<lparr>location := Some ''UTC''\<rparr>
        :: (unit, string, unit, unit) httpConnect"
  let ?q = "example_query (Inr \<lparr>Columns = [''timeZone()''], Scans = [Inr ''UTC'']\<rparr>)"
  let ?o = "Some \<lparr>queryID = ''q 1'', quotaKey = [],
            settings = [(''default_format'', ''CSV''), (''max_threads'', ''4'')]\<rparr>"
  have k: "query_keeps ?q"
    by (simp add: query_keeps_def example_query_def)
  have d: "dialHttp ?q example_LoadLocation (\<lambda>v. v) () () () ''localhost:8123'' 1 example_options = Inr ?h"
    by (simp add: dialHttp_def example_query_def example_LoadLocation_def scanned_def)
  have s1: "CHR ''?'' \<notin> set (opt_Scheme example_options)"
    and s2: "CHR ''#'' \<notin> set (opt_Scheme example_options)"
    by (simp_all add: example_options_def)
  from default_format_fixed
    [where query = ?q and parse_hier = example_parse_hier and setFragment = example_setFragment
       and Sprint = "\<lambda>v. v" and LoadLocation = example_LoadLocation and dial_ctx = "()"
       and ctx = "Some ()" and h = ?h and reader = "''SELECT 1''" and options = ?o,
     OF k d s1 s2]
  show ?thesis
    by (auto simp: example_prepared simp del: parseQuery.simps)
qed

end
